theory Spec2Isabelle
  imports Complex_Main "HOL-Library.AList"
begin

section \<open>Strings\<close>

text \<open>
  A JavaScript string is modelled as a \<open>string\<close>: a list of code units below 256. Within
  that range the white space that \<open>String.prototype.trim\<close>, \<open>parseFloat\<close>, \<open>Number\<close> and
  the regular-expression class \<open>\s\<close> recognise is TAB, LF, VT, FF, CR, SPACE and NBSP.
\<close>

definition isWhiteSpace :: "char \<Rightarrow> bool" where
  "isWhiteSpace c = ((of_char c :: nat) \<in> {9, 10, 11, 12, 13, 32, 160})"

definition isDigit :: "char \<Rightarrow> bool" where
  "isDigit c = (48 \<le> (of_char c :: nat) \<and> (of_char c :: nat) \<le> 57)"

definition trimStart :: "string \<Rightarrow> string" where
  "trimStart s = dropWhile isWhiteSpace s"

definition trimEnd :: "string \<Rightarrow> string" where
  "trimEnd s = rev (dropWhile isWhiteSpace (rev s))"

definition trim :: "string \<Rightarrow> string" where
  "trim s = trimEnd (trimStart s)"

text \<open>\<open>s.split(sep)\<close> for a separator of one character: the result is never empty, and
  the empty string splits into one empty piece.\<close>

fun split_char :: "char \<Rightarrow> string \<Rightarrow> string list" where
  "split_char sep [] = [[]]"
| "split_char sep (c # cs) =
     (if c = sep then [] # split_char sep cs
      else (case split_char sep cs of
              [] \<Rightarrow> [[c]]
            | w # ws \<Rightarrow> (c # w) # ws))"

text \<open>\<open>toLowerCase\<close> on code units below 256: the ASCII capitals and the Latin-1
  capitals (all of 192..222 but the multiplication sign 215) move up by 32.\<close>

definition lowerChar :: "char \<Rightarrow> char" where
  "lowerChar c =
     (let n = (of_char c :: nat) in
      if (65 \<le> n \<and> n \<le> 90) \<or> (192 \<le> n \<and> n \<le> 222 \<and> n \<noteq> 215)
      then char_of (n + 32) else c)"

definition toLowerCase :: "string \<Rightarrow> string" where
  "toLowerCase s = map lowerChar s"

text \<open>Decimal rendering of a non-negative integer, as a template literal prints a count.\<close>

fun show_nat :: "nat \<Rightarrow> string" where
  "show_nat n =
     (if n < 10 then [char_of (48 + n)]
      else show_nat (n div 10) @ [char_of (48 + n mod 10)])"

declare show_nat.simps [simp del]

definition show_int :: "int \<Rightarrow> string" where
  "show_int i = (if i < 0 then CHR ''-'' # show_nat (nat (- i)) else show_nat (nat i))"

section \<open>Numbers\<close>

text \<open>
  A JavaScript number is an IEEE 754 double: \<open>NaN\<close>, one of the two infinities, or a
  finite value. A finite value is carried as the real number it denotes; the sign of zero
  is not distinguished. Every arithmetic result is rounded to the nearest double, ties to
  even, by \<open>to_double\<close>: the exponent of a real \<open>r\<close> is \<open>\<lfloor>log 2 \<bar>r\<bar>\<rfloor>\<close>, not below that of the
  subnormals, the spacing of the doubles around \<open>r\<close> is two to that exponent less 52,
  and a rounded magnitude of \<open>2^1024\<close> or more is an infinity.
\<close>

datatype jsnum = NaN | PosInf | NegInf | Fin real

definition isNaN :: "jsnum \<Rightarrow> bool" where
  "isNaN x = (x = NaN)"

definition is_finite :: "jsnum \<Rightarrow> bool" where
  "is_finite x = (case x of Fin _ \<Rightarrow> True | _ \<Rightarrow> False)"

definition round_even :: "real \<Rightarrow> int" where
  "round_even q =
     (let f = \<lfloor>q\<rfloor> in
      if q - of_int f < 1 / 2 then f
      else if 1 / 2 < q - of_int f then f + 1
      else if even f then f else f + 1)"

definition expo :: "real \<Rightarrow> int" where
  "expo r = max \<lfloor>log 2 \<bar>r\<bar>\<rfloor> (- 1022)"

definition to_double :: "real \<Rightarrow> jsnum" where
  "to_double r =
     (if r = 0 then Fin 0
      else
        (let ulp = 2 powi (expo r - 52);
             v = of_int (round_even (r / ulp)) * ulp
         in if \<bar>v\<bar> < 2 ^ 1024 then Fin v
            else if 0 < r then PosInf else NegInf))"

text \<open>The reals that are doubles: those that rounding leaves alone.\<close>

definition is_double :: "real \<Rightarrow> bool" where
  "is_double r = (to_double r = Fin r)"

fun jneg :: "jsnum \<Rightarrow> jsnum" where
  "jneg NaN = NaN"
| "jneg PosInf = NegInf"
| "jneg NegInf = PosInf"
| "jneg (Fin a) = Fin (- a)"

text \<open>\<open>a + b\<close>, \<open>a - b\<close> and \<open>a / b\<close> on doubles: the exact result, rounded.\<close>

fun jadd :: "jsnum \<Rightarrow> jsnum \<Rightarrow> jsnum" where
  "jadd (Fin a) (Fin b) = to_double (a + b)"
| "jadd NaN _ = NaN"
| "jadd _ NaN = NaN"
| "jadd PosInf NegInf = NaN"
| "jadd NegInf PosInf = NaN"
| "jadd PosInf _ = PosInf"
| "jadd _ PosInf = PosInf"
| "jadd NegInf _ = NegInf"
| "jadd _ NegInf = NegInf"

definition jsub :: "jsnum \<Rightarrow> jsnum \<Rightarrow> jsnum" where
  "jsub a b = jadd a (jneg b)"

fun jdiv :: "jsnum \<Rightarrow> jsnum \<Rightarrow> jsnum" where
  "jdiv (Fin a) (Fin b) =
     (if b = 0 then (if a = 0 then NaN else if 0 < a then PosInf else NegInf)
      else to_double (a / b))"
| "jdiv NaN _ = NaN"
| "jdiv _ NaN = NaN"
| "jdiv (Fin a) _ = Fin 0"
| "jdiv PosInf (Fin b) = (if 0 \<le> b then PosInf else NegInf)"
| "jdiv NegInf (Fin b) = (if 0 \<le> b then NegInf else PosInf)"
| "jdiv _ _ = NaN"

text \<open>The minimum and the maximum of two numbers, as \<open>Math.min\<close> and \<open>Math.max\<close> combine
  their arguments: \<open>NaN\<close> is contagious, and nothing is rounded.\<close>

fun jmin :: "jsnum \<Rightarrow> jsnum \<Rightarrow> jsnum" where
  "jmin (Fin a) (Fin b) = Fin (min a b)"
| "jmin NaN _ = NaN"
| "jmin _ NaN = NaN"
| "jmin NegInf _ = NegInf"
| "jmin _ NegInf = NegInf"
| "jmin PosInf b = b"
| "jmin a PosInf = a"

fun jmax :: "jsnum \<Rightarrow> jsnum \<Rightarrow> jsnum" where
  "jmax (Fin a) (Fin b) = Fin (max a b)"
| "jmax NaN _ = NaN"
| "jmax _ NaN = NaN"
| "jmax PosInf _ = PosInf"
| "jmax _ PosInf = PosInf"
| "jmax NegInf b = b"
| "jmax a NegInf = a"

subsection \<open>Numeric literals in strings\<close>

definition digit_val :: "char \<Rightarrow> nat" where
  "digit_val c =
     (let n = (of_char c :: nat) in
      if 48 \<le> n \<and> n \<le> 57 then n - 48
      else if 97 \<le> n \<and> n \<le> 102 then n - 87
      else if 65 \<le> n \<and> n \<le> 70 then n - 55
      else 0)"

definition digits_val :: "nat \<Rightarrow> string \<Rightarrow> nat" where
  "digits_val base ds = foldl (\<lambda>acc c. acc * base + digit_val c) 0 ds"

definition isDigitOf :: "nat \<Rightarrow> char \<Rightarrow> bool" where
  "isDigitOf base c =
     (let n = (of_char c :: nat) in
      (48 \<le> n \<and> n \<le> 57 \<and> n - 48 < base) \<or>
      (base = 16 \<and> ((97 \<le> n \<and> n \<le> 102) \<or> (65 \<le> n \<and> n \<le> 70))))"

text \<open>The value of the digits \<open>ds.fs\<close> scaled by ten to the power \<open>e\<close>.\<close>

definition decimal_value :: "string \<Rightarrow> string \<Rightarrow> int \<Rightarrow> jsnum" where
  "decimal_value ds fs e =
     (let m = real (digits_val 10 (ds @ fs)); k = e - int (length fs) in
      to_double (if 0 \<le> k then m * 10 ^ nat k else m / 10 ^ nat (- k)))"

text \<open>The exponent part after a mantissa: \<open>e\<close> or \<open>E\<close>, an optional sign, and at least
  one digit; otherwise the mantissa stands alone and the rest is left unread.\<close>

definition scan_exponent :: "string \<Rightarrow> string \<Rightarrow> string \<Rightarrow> jsnum \<times> string" where
  "scan_exponent ds fs r =
     (case r of
        [] \<Rightarrow> (decimal_value ds fs 0, r)
      | c # r1 \<Rightarrow>
          if c = CHR ''e'' \<or> c = CHR ''E'' then
            (let (neg, r2) =
                   (case r1 of
                      [] \<Rightarrow> (False, r1)
                    | s # r2 \<Rightarrow>
                        if s = CHR ''-'' then (True, r2)
                        else if s = CHR ''+'' then (False, r2)
                        else (False, r1));
                 es = takeWhile isDigit r2
             in if es = [] then (decimal_value ds fs 0, r)
                else (decimal_value ds fs
                        (if neg then - int (digits_val 10 es) else int (digits_val 10 es)),
                      dropWhile isDigit r2))
          else (decimal_value ds fs 0, r))"

text \<open>The longest prefix that is a \<open>StrUnsignedDecimalLiteral\<close>, with its value and the
  rest of the string; \<open>None\<close> when no prefix is one.\<close>

definition scan_unsigned :: "string \<Rightarrow> (jsnum \<times> string) option" where
  "scan_unsigned u =
     (if take 8 u = ''Infinity'' then Some (PosInf, drop 8 u)
      else
        (let ds = takeWhile isDigit u; r1 = dropWhile isDigit u in
         case r1 of
           [] \<Rightarrow> if ds = [] then None else Some (scan_exponent ds [] r1)
         | c # r2 \<Rightarrow>
             if c = CHR ''.'' then
               (let fs = takeWhile isDigit r2; r3 = dropWhile isDigit r2 in
                if ds = [] \<and> fs = [] then None else Some (scan_exponent ds fs r3))
             else if ds = [] then None else Some (scan_exponent ds [] r1)))"

definition scan_StrDecimalLiteral :: "string \<Rightarrow> (jsnum \<times> string) option" where
  "scan_StrDecimalLiteral t =
     (case t of
        [] \<Rightarrow> None
      | c # u \<Rightarrow>
          if c = CHR ''-'' then map_option (\<lambda>(v, r). (jneg v, r)) (scan_unsigned u)
          else if c = CHR ''+'' then scan_unsigned u
          else scan_unsigned t)"

text \<open>\<open>parseFloat\<close> on a string: leading white space is dropped and the longest decimal
  prefix is read.\<close>

definition parseFloat_str :: "string \<Rightarrow> jsnum" where
  "parseFloat_str s =
     (case scan_StrDecimalLiteral (trimStart s) of
        None \<Rightarrow> NaN
      | Some (v, _) \<Rightarrow> v)"

text \<open>\<open>0x\<close>, \<open>0o\<close> and \<open>0b\<close> literals, which \<open>Number\<close> reads and \<open>parseFloat\<close> does not.\<close>

definition NonDecimalIntegerLiteral :: "string \<Rightarrow> jsnum option" where
  "NonDecimalIntegerLiteral t =
     (case t of
        z # x # ds \<Rightarrow>
          (let base =
                 (if x = CHR ''x'' \<or> x = CHR ''X'' then 16
                  else if x = CHR ''o'' \<or> x = CHR ''O'' then 8
                  else if x = CHR ''b'' \<or> x = CHR ''B'' then 2
                  else (0::nat))
           in if z = CHR ''0'' \<and> base \<noteq> 0 \<and> ds \<noteq> [] \<and> list_all (isDigitOf base) ds
              then Some (to_double (real (digits_val base ds)))
              else None)
      | _ \<Rightarrow> None)"

text \<open>\<open>Number(s)\<close> for a string \<open>s\<close>: white space is trimmed on both sides, the empty
  string is zero, and the whole rest must be one literal.\<close>

definition StringToNumber :: "string \<Rightarrow> jsnum" where
  "StringToNumber s =
     (let t = trim s in
      if t = [] then Fin 0
      else
        (case NonDecimalIntegerLiteral t of
           Some v \<Rightarrow> v
         | None \<Rightarrow>
             (case scan_StrDecimalLiteral t of
                Some (v, []) \<Rightarrow> v
              | _ \<Rightarrow> NaN)))"

section \<open>Values\<close>

text \<open>
  The values the analyzers handle: a CSV cell (a string, or \<open>undefined\<close> past the end of a
  short row) and whatever \<open>JSON.parse\<close> returns. An object is its own enumerable
  properties in enumeration order; properties inherited from \<open>Object.prototype\<close> (a key
  such as \<open>toString\<close> or \<open>__proto__\<close>) are outside the model.
\<close>

datatype jsval =
    Undefined
  | Null
  | Bool bool
  | Num jsnum
  | Str string
  | Arr "jsval list"
  | Obj "(string \<times> jsval) list"

text \<open>
  What the language leaves to the engine, and one function of the repository, are
  parameters of the model, collected in a record. \<open>JSON_parse\<close> is \<open>JSON.parse\<close>
  (\<open>None\<close> when it throws a \<open>SyntaxError\<close>). \<open>Number_repr\<close> gives the digits
  \<open>Number.prototype.toString\<close> prints for a finite number that is not an integer below
  \<open>10^21\<close> in magnitude. \<open>Math_pow_approx\<close> and \<open>Math_sqrt_approx\<close> are the results of
  \<open>Math.pow\<close> and \<open>Math.sqrt\<close> where the language asks only for an approximation.
  \<open>argument_limit\<close> is the largest number of arguments a call can spread an array into:
  above it the call throws a \<open>RangeError\<close>. \<open>formatFileSize\<close> is the repository's
  function of that name, whose label comes out of \<open>Math.log\<close> and \<open>toFixed\<close>; it only
  fills the field \<open>fileSize\<close>. Every function that needs one takes the record as its
  first argument, and every theorem holds for all values of it.
\<close>

record platform =
  JSON_parse :: "string \<Rightarrow> jsval option"
  Number_repr :: "real \<Rightarrow> string"
  Math_pow_approx :: "real \<Rightarrow> real \<Rightarrow> jsnum"
  Math_sqrt_approx :: "real \<Rightarrow> jsnum"
  argument_limit :: nat
  formatFileSize :: "nat \<Rightarrow> string"

definition Number_toString :: "platform \<Rightarrow> jsnum \<Rightarrow> string" where
  "Number_toString P x =
     (case x of
        NaN \<Rightarrow> ''NaN''
      | PosInf \<Rightarrow> ''Infinity''
      | NegInf \<Rightarrow> ''-Infinity''
      | Fin r \<Rightarrow>
          if r = real_of_int \<lfloor>r\<rfloor> \<and> \<bar>r\<bar> < 10 ^ 21 then show_int \<lfloor>r\<rfloor>
          else Number_repr P r)"

fun join_with :: "string \<Rightarrow> string list \<Rightarrow> string" where
  "join_with sep [] = []"
| "join_with sep [x] = x"
| "join_with sep (x # y # ys) = x @ sep @ join_with sep (y # ys)"

text \<open>\<open>String(v)\<close>. An array joins its elements with commas, \<open>null\<close> and \<open>undefined\<close>
  elements printing as nothing; a plain object prints as \<open>[object Object]\<close>.\<close>

primrec String_of :: "platform \<Rightarrow> jsval \<Rightarrow> string" where
  "String_of P Undefined = ''undefined''"
| "String_of P Null = ''null''"
| "String_of P (Bool b) = (if b then ''true'' else ''false'')"
| "String_of P (Num x) = Number_toString P x"
| "String_of P (Str s) = s"
| "String_of P (Arr xs) =
     join_with '',''
       (map2 (\<lambda>x s. if x = Undefined \<or> x = Null then [] else s) xs (map (String_of P) xs))"
| "String_of P (Obj kvs) = ''[object Object]''"

text \<open>\<open>Number(v)\<close>, the conversion inside the global \<open>isFinite\<close>.\<close>

definition ToNumber :: "platform \<Rightarrow> jsval \<Rightarrow> jsnum" where
  "ToNumber P v =
     (case v of
        Undefined \<Rightarrow> NaN
      | Null \<Rightarrow> Fin 0
      | Bool b \<Rightarrow> Fin (if b then 1 else 0)
      | Num x \<Rightarrow> x
      | Str s \<Rightarrow> StringToNumber s
      | _ \<Rightarrow> StringToNumber (String_of P v))"

definition isFinite :: "platform \<Rightarrow> jsval \<Rightarrow> bool" where
  "isFinite P v = is_finite (ToNumber P v)"

text \<open>\<open>parseFloat(v)\<close> reads \<open>String(v)\<close>. For a number the string printed is one that
  reads back as the same number, so the round trip is written as the identity.\<close>

definition parseFloat :: "platform \<Rightarrow> jsval \<Rightarrow> jsnum" where
  "parseFloat P v =
     (case v of
        Num x \<Rightarrow> x
      | _ \<Rightarrow> parseFloat_str (String_of P v))"

text \<open>Truthiness, and property access \<open>v[k]\<close> on own properties. Reading a property of
  \<open>null\<close> or \<open>undefined\<close> throws a \<open>TypeError\<close>; a call with too many arguments throws
  a \<open>RangeError\<close>.\<close>

datatype error = ReadError | TypeError | RangeError

definition truthy :: "jsval \<Rightarrow> bool" where
  "truthy v =
     (case v of
        Undefined \<Rightarrow> False
      | Null \<Rightarrow> False
      | Bool b \<Rightarrow> b
      | Num x \<Rightarrow> x \<noteq> NaN \<and> x \<noteq> Fin 0
      | Str s \<Rightarrow> s \<noteq> []
      | _ \<Rightarrow> True)"

definition index_of_key :: "nat \<Rightarrow> string \<Rightarrow> nat option" where
  "index_of_key n k = find (\<lambda>i. show_nat i = k) [0..<n]"

definition getProp :: "jsval \<Rightarrow> string \<Rightarrow> error + jsval" where
  "getProp v k =
     (case v of
        Undefined \<Rightarrow> Inl TypeError
      | Null \<Rightarrow> Inl TypeError
      | Obj kvs \<Rightarrow> Inr (case map_of kvs k of Some x \<Rightarrow> x | None \<Rightarrow> Undefined)
      | Arr xs \<Rightarrow>
          Inr (if k = ''length'' then Num (Fin (real (length xs)))
               else (case index_of_key (length xs) k of
                       Some i \<Rightarrow> xs ! i
                     | None \<Rightarrow> Undefined))
      | Str s \<Rightarrow>
          Inr (if k = ''length'' then Num (Fin (real (length s)))
               else (case index_of_key (length s) k of
                       Some i \<Rightarrow> Str [s ! i]
                     | None \<Rightarrow> Undefined))
      | _ \<Rightarrow> Inr Undefined)"

text \<open>\<open>Object.keys(v)\<close>: throws on \<open>null\<close> and \<open>undefined\<close>, lists the indices of an
  array or a string, and is empty for a number or a boolean.\<close>

definition Object_keys :: "jsval \<Rightarrow> error + string list" where
  "Object_keys v =
     (case v of
        Undefined \<Rightarrow> Inl TypeError
      | Null \<Rightarrow> Inl TypeError
      | Obj kvs \<Rightarrow> Inr (map fst kvs)
      | Arr xs \<Rightarrow> Inr (map show_nat [0..<length xs])
      | Str s \<Rightarrow> Inr (map show_nat [0..<length s])
      | _ \<Rightarrow> Inr [])"

section \<open>Regular expressions\<close>

text \<open>
  The fragment of regular expressions the analyzer uses, with the precedence of the
  source kept in the tree: in \<open>/^A|B$/\<close> the alternation is the outermost operator, so
  \<open>^\<close> belongs to the left branch and \<open>$\<close> to the right one.
\<close>

datatype regex =
    Bol
  | Eol
  | Digit
  | OneOf string
  | Seq regex regex
  | Alt regex regex
  | Times nat nat regex

fun napply :: "('a \<Rightarrow> 'a list) \<Rightarrow> nat \<Rightarrow> 'a list \<Rightarrow> 'a list" where
  "napply f 0 sts = sts"
| "napply f (Suc k) sts = napply f k (concat (map f sts))"

text \<open>A matcher state is the position in the input and the input left to read; the
  matcher returns every state in which a match of the expression can end.\<close>

primrec rmatch :: "regex \<Rightarrow> nat \<times> string \<Rightarrow> (nat \<times> string) list" where
  "rmatch Bol = (\<lambda>(i, s). if i = 0 then [(i, s)] else [])"
| "rmatch Eol = (\<lambda>(i, s). if s = [] then [(i, s)] else [])"
| "rmatch Digit =
     (\<lambda>(i, s). case s of [] \<Rightarrow> [] | c # cs \<Rightarrow> if isDigit c then [(Suc i, cs)] else [])"
| "rmatch (OneOf cls) =
     (\<lambda>(i, s). case s of [] \<Rightarrow> [] | c # cs \<Rightarrow> if c \<in> set cls then [(Suc i, cs)] else [])"
| "rmatch (Seq r1 r2) = (\<lambda>st. concat (map (rmatch r2) (rmatch r1 st)))"
| "rmatch (Alt r1 r2) = (\<lambda>st. rmatch r1 st @ rmatch r2 st)"
| "rmatch (Times lo hi r) =
     (\<lambda>st. concat (map (\<lambda>k. napply (rmatch r) k [st]) [lo..<Suc hi]))"

text \<open>\<open>re.test(s)\<close> for an expression without flags: a match may start anywhere.\<close>

definition regex_test :: "regex \<Rightarrow> string \<Rightarrow> bool" where
  "regex_test re s = list_ex (\<lambda>i. rmatch re (i, drop i s) \<noteq> []) [0..<Suc (length s)]"

section \<open>Type inference\<close>

text \<open>\<open>/^\d{4}[-/]\d{1,2}[-/]\d{1,2}|\d{1,2}[-/]\d{1,2}[-/]\d{2,4}$/\<close>\<close>

definition datePattern :: regex where
  "datePattern =
     Alt
       (Seq Bol (Seq (Times 4 4 Digit) (Seq (OneOf ''-/'') (Seq (Times 1 2 Digit)
          (Seq (OneOf ''-/'') (Times 1 2 Digit))))))
       (Seq (Times 1 2 Digit) (Seq (OneOf ''-/'') (Seq (Times 1 2 Digit)
          (Seq (OneOf ''-/'') (Seq (Times 2 4 Digit) Eol)))))"

definition booleanValues :: "string list" where
  "booleanValues = [''true'', ''false'', ''0'', ''1'', ''yes'', ''no'']"

definition detectDataType :: "platform \<Rightarrow> jsval list \<Rightarrow> string" where
  "detectDataType P values =
     (let nonEmptyValues = filter (\<lambda>v. v \<noteq> Undefined \<and> v \<noteq> Null \<and> v \<noteq> Str []) values in
      if length nonEmptyValues = 0 then ''empty''
      else
        (let allNumbers =
               list_all (\<lambda>v. \<not> isNaN (parseFloat P v) \<and> isFinite P v) nonEmptyValues in
         if allNumbers then ''number''
         else
           (let allDates =
                  list_all (\<lambda>v. regex_test datePattern (String_of P v)) nonEmptyValues in
            if allDates then ''date''
            else
              (let allBooleans =
                     list_all (\<lambda>v. toLowerCase (String_of P v) \<in> set booleanValues)
                       nonEmptyValues in
               if allBooleans then ''boolean''
               else ''string''))))"

section \<open>Statistics\<close>

text \<open>
  \<open>[...values].sort((a, b) => a - b)\<close>. The sort is stable and the comparator orders
  numbers by their difference (a \<open>NaN\<close> difference counts as equal); it is modelled as
  the insertion of each element before the first one it does not come after.
\<close>

definition not_after :: "jsnum \<Rightarrow> jsnum \<Rightarrow> bool" where
  "not_after a b =
     (case jsub a b of
        Fin d \<Rightarrow> d \<le> 0
      | NegInf \<Rightarrow> True
      | PosInf \<Rightarrow> False
      | NaN \<Rightarrow> True)"

fun insert_sorted :: "jsnum \<Rightarrow> jsnum list \<Rightarrow> jsnum list" where
  "insert_sorted x [] = [x]"
| "insert_sorted x (y # ys) = (if not_after x y then x # y # ys else y # insert_sorted x ys)"

definition js_sort :: "jsnum list \<Rightarrow> jsnum list" where
  "js_sort values = foldr insert_sorted values []"

text \<open>
  \<open>Math.pow(x, 2)\<close> and \<open>Math.sqrt(x)\<close>. The language fixes the result at \<open>NaN\<close>, at the
  infinities, at zero and, for the root, below zero; everywhere else it asks for an
  approximation, which the engine chooses.
\<close>

definition Math_pow2 :: "platform \<Rightarrow> jsnum \<Rightarrow> jsnum" where
  "Math_pow2 P x =
     (case x of
        NaN \<Rightarrow> NaN
      | PosInf \<Rightarrow> PosInf
      | NegInf \<Rightarrow> PosInf
      | Fin a \<Rightarrow> if a = 0 then Fin 0 else Math_pow_approx P a 2)"

definition Math_sqrt :: "platform \<Rightarrow> jsnum \<Rightarrow> jsnum" where
  "Math_sqrt P x =
     (case x of
        NaN \<Rightarrow> NaN
      | PosInf \<Rightarrow> PosInf
      | NegInf \<Rightarrow> NaN
      | Fin a \<Rightarrow> if a < 0 then NaN else if a = 0 then Fin 0 else Math_sqrt_approx P a)"

text \<open>
  \<open>Math.min(...values)\<close> and \<open>Math.max(...values)\<close>: every element of the array becomes an
  argument of the call, which throws a \<open>RangeError\<close> when there are more of them than the
  engine accepts.
\<close>

definition Math_min :: "platform \<Rightarrow> jsnum list \<Rightarrow> error + jsnum" where
  "Math_min P values =
     (if argument_limit P < length values then Inl RangeError
      else Inr (foldl jmin PosInf values))"

definition Math_max :: "platform \<Rightarrow> jsnum list \<Rightarrow> error + jsnum" where
  "Math_max P values =
     (if argument_limit P < length values then Inl RangeError
      else Inr (foldl jmax NegInf values))"

text \<open>The indices read from \<open>sortedValues\<close> are in range whenever the list is not empty,
  which the first line ensures. The object literal evaluates \<open>min\<close> and then \<open>max\<close>, after
  everything else has been computed.\<close>

definition calculateStatistics :: "platform \<Rightarrow> jsnum list \<Rightarrow> error + (string \<times> jsnum) list" where
  "calculateStatistics P values =
     (if length values = 0 then Inr []
      else
        (let sum = foldl jadd (Fin 0) values;
             mean = jdiv sum (Fin (real (length values)));
             sortedValues = js_sort values;
             n = length sortedValues;
             median =
               (if n mod 2 = 0
                then jdiv (jadd (sortedValues ! (n div 2 - 1)) (sortedValues ! (n div 2))) (Fin 2)
                else sortedValues ! (n div 2));
             squaredDiffs = map (\<lambda>value. Math_pow2 P (jsub value mean)) values;
             variance = jdiv (foldl jadd (Fin 0) squaredDiffs) (Fin (real (length values)));
             stdDev = Math_sqrt P variance
         in case Math_min P values of
              Inl e \<Rightarrow> Inl e
            | Inr minimum \<Rightarrow>
                (case Math_max P values of
                   Inl e \<Rightarrow> Inl e
                 | Inr maximum \<Rightarrow>
                     Inr [(''min'', minimum),
                          (''max'', maximum),
                          (''mean'', mean),
                          (''median'', median),
                          (''stdDev'', stdDev),
                          (''count'', Fin (real (length values)))])))"

section \<open>Recommendations\<close>

text \<open>\<open>dataTypes\<close> is an object used as a dictionary: an association list with one entry
  per key, written with \<open>AList.update\<close>. \<open>Object.values\<close> lists its values. The list
  \<open>recommendations\<close> is threaded through the rules, each \<open>push\<close> appending at the end.\<close>

definition Object_values :: "(string \<times> 'v) list \<Rightarrow> 'v list" where
  "Object_values obj = map snd obj"

definition generateRecommendations :: "(string \<times> string) list \<Rightarrow> int \<Rightarrow> string list" where
  "generateRecommendations dataTypes rowCount =
     (let numericColumns =
            length (filter (\<lambda>type. type = ''number'') (Object_values dataTypes));
          categoricalColumns =
            length (filter (\<lambda>type. type = ''string'' \<or> type = ''boolean'')
                      (Object_values dataTypes));
          dateColumns = length (filter (\<lambda>type. type = ''date'') (Object_values dataTypes));
          r0 = [];
          r1 = (if numericColumns > 0 \<and> categoricalColumns > 0
                then r0 @ [''Random Forest algorithm is recommended for mixed numeric and categorical data'']
                else r0);
          r2 = (if numericColumns > 3
                then r1 @ [''Principal Component Analysis (PCA) can help reduce dimensionality'']
                else r1);
          r3 = (if categoricalColumns > numericColumns
                then r2 @ [''Decision Tree algorithm works well with categorical data'']
                else r2);
          r4 = (if dateColumns > 0
                then r3 @ [''Time Series analysis is recommended for temporal data'']
                else r3);
          r5 = (if rowCount > 1000
                then r4 @ [''XGBoost algorithm performs well on large datasets'']
                else if rowCount < 100
                then r4 @ [''K-Nearest Neighbors algorithm works well with smaller datasets'']
                else r4);
          r6 = (if numericColumns > 3
                then r5 @ [''Graph visualization is recommended for multi-dimensional data'']
                else if numericColumns > 0
                then r5 @ [''Bar charts or line graphs are recommended for numeric data visualization'']
                else r5);
          r7 = (if categoricalColumns > 0
                then r6 @ [''Pie charts are effective for categorical data distribution'']
                else r6)
      in r7)"

section \<open>The analysis record\<close>

text \<open>An entry of \<open>statistics\<close> is one of the two shapes the analyzers store: the record
  \<open>calculateStatistics\<close> returns (CSV and JSON) or a plain number (text files).\<close>

datatype stat_entry = StatsRecord "(string \<times> jsnum) list" | StatNumber jsnum

record AnalysisResult =
  summary :: string
  rowCount :: "int option"
  columnCount :: "nat option"
  headers :: "string list option"
  dataTypes :: "(string \<times> string) list option"
  sampleData :: "jsval list option"
  statistics :: "(string \<times> stat_entry) list option"
  fileType :: string
  fileSize :: string
  recommendations :: "string list option"

text \<open>\<open>Partial<AnalysisResult>\<close>, what an analyzer returns: \<open>None\<close> is a key the object
  literal does not set (or sets to \<open>undefined\<close>).\<close>

record PartialResult =
  p_summary :: "string option"
  p_rowCount :: "int option"
  p_columnCount :: "nat option"
  p_headers :: "string list option"
  p_dataTypes :: "(string \<times> string) list option"
  p_sampleData :: "jsval list option"
  p_statistics :: "(string \<times> stat_entry) list option"
  p_recommendations :: "string list option"

definition or_else :: "'a option \<Rightarrow> 'a option \<Rightarrow> 'a option" where
  "or_else new old = (case new of Some v \<Rightarrow> Some v | None \<Rightarrow> old)"

text \<open>\<open>{ ...result, ...partial }\<close>\<close>

definition spread :: "AnalysisResult \<Rightarrow> PartialResult \<Rightarrow> AnalysisResult" where
  "spread result partial =
     \<lparr> summary = (case p_summary partial of Some s \<Rightarrow> s | None \<Rightarrow> summary result),
       rowCount = or_else (p_rowCount partial) (rowCount result),
       columnCount = or_else (p_columnCount partial) (columnCount result),
       headers = or_else (p_headers partial) (headers result),
       dataTypes = or_else (p_dataTypes partial) (dataTypes result),
       sampleData = or_else (p_sampleData partial) (sampleData result),
       statistics = or_else (p_statistics partial) (statistics result),
       fileType = fileType result,
       fileSize = fileSize result,
       recommendations = or_else (p_recommendations partial) (recommendations result) \<rparr>"

text \<open>The number of keys of \<open>dataTypes\<close> typed \<open>number\<close>, as the summaries print it.\<close>

definition numericCount :: "(string \<times> string) list \<Rightarrow> nat" where
  "numericCount dataTypes' =
     length (filter (\<lambda>k. map_of dataTypes' k = Some ''number'') (map fst dataTypes'))"

section \<open>The CSV analyzer\<close>

text \<open>\<open>line.split(",")[index]?.trim()\<close>: \<open>undefined\<close> past the end of the row.\<close>

definition cell :: "string \<Rightarrow> nat \<Rightarrow> jsval" where
  "cell line index =
     (let parts = split_char CHR '','' line in
      if index < length parts then Str (trim (parts ! index)) else Undefined)"

text \<open>One sample row: \<open>headers.reduce((obj, header, index) => ..., {})\<close> with
  \<open>values[index] || ""\<close>.\<close>

definition sampleRow :: "string list \<Rightarrow> string \<Rightarrow> jsval" where
  "sampleRow headers' line =
     (let values = map trim (split_char CHR '','' line) in
      Obj (foldl (\<lambda>obj (header, index).
                    AList.update header
                      (Str (if index < length values \<and> values ! index \<noteq> []
                            then values ! index else []))
                      obj)
             [] (zip headers' [0..<length headers'])))"

text \<open>The second \<open>headers.forEach\<close>, which fills \<open>statistics\<close>: it stops at the first
  column whose statistics throw.\<close>

fun csvStatistics ::
  "platform \<Rightarrow> string list \<Rightarrow> (string \<times> string) list \<Rightarrow> (string \<times> nat) list \<Rightarrow>
     (string \<times> stat_entry) list \<Rightarrow> error + (string \<times> stat_entry) list" where
  "csvStatistics P rows dataTypes' [] statistics' = Inr statistics'"
| "csvStatistics P rows dataTypes' ((header, index) # hs) statistics' =
     (if map_of dataTypes' header = Some ''number'' then
        (case calculateStatistics P
                (filter (\<lambda>val. \<not> isNaN val)
                   (map (\<lambda>line. parseFloat P (cell line index)) rows)) of
           Inl e \<Rightarrow> Inl e
         | Inr stats \<Rightarrow>
             csvStatistics P rows dataTypes' hs
               (AList.update header (StatsRecord stats) statistics'))
      else csvStatistics P rows dataTypes' hs statistics')"

definition analyzeCSV :: "platform \<Rightarrow> string \<Rightarrow> error + PartialResult" where
  "analyzeCSV P content =
     (let lines = filter (\<lambda>line. trim line \<noteq> []) (split_char CHR 0x0A content) in
      if length lines = 0 then
        Inr \<lparr> p_summary = Some ''Empty CSV file detected.'',
              p_rowCount = Some 0,
              p_columnCount = Some 0,
              p_headers = None,
              p_dataTypes = None,
              p_sampleData = None,
              p_statistics = None,
              p_recommendations = None \<rparr>
      else
        (let headers = map trim (split_char CHR '','' (lines ! 0));
             columnCount = length headers;
             rowCount = int (length lines) - 1;
             sampleData = map (sampleRow headers) (take 5 (drop 1 lines));
             dataTypes =
               foldl (\<lambda>dataTypes (header, index).
                        AList.update header
                          (detectDataType P (map (\<lambda>line. cell line index) (drop 1 lines)))
                          dataTypes)
                 [] (zip headers [0..<length headers])
         in case csvStatistics P (drop 1 lines) dataTypes (zip headers [0..<length headers]) [] of
              Inl e \<Rightarrow> Inl e
            | Inr statistics' \<Rightarrow>
                (let recommendations = generateRecommendations dataTypes rowCount
                 in Inr \<lparr> p_summary = Some (''CSV file with '' @ show_int rowCount @
                            '' rows and '' @ show_nat columnCount @ '' columns. Contains '' @
                            show_nat (numericCount dataTypes) @
                            '' numeric columns suitable for analysis.''),
                          p_rowCount = Some rowCount,
                          p_columnCount = Some columnCount,
                          p_headers = Some headers,
                          p_dataTypes = Some dataTypes,
                          p_sampleData = Some sampleData,
                          p_statistics = Some statistics',
                          p_recommendations = Some recommendations \<rparr>)))"

section \<open>The JSON analyzer\<close>

definition typeof_object :: "jsval \<Rightarrow> bool" where
  "typeof_object v = (case v of Null \<Rightarrow> True | Arr _ \<Rightarrow> True | Obj _ \<Rightarrow> True | _ \<Rightarrow> False)"

text \<open>\<open>content.map((item) => item[header])\<close>, which throws at the first \<open>null\<close> item.\<close>

fun column :: "jsval list \<Rightarrow> string \<Rightarrow> error + jsval list" where
  "column [] header = Inr []"
| "column (item # items) header =
     (case getProp item header of
        Inl e \<Rightarrow> Inl e
      | Inr v \<Rightarrow> (case column items header of Inl e \<Rightarrow> Inl e | Inr vs \<Rightarrow> Inr (v # vs)))"

text \<open>The two \<open>headers.forEach\<close> loops over the rows \<open>items\<close> (the array, or the single
  object), each carrying the dictionary it fills.\<close>

fun detectAll ::
  "platform \<Rightarrow> jsval list \<Rightarrow> string list \<Rightarrow> (string \<times> string) list \<Rightarrow>
     error + (string \<times> string) list" where
  "detectAll P items [] dataTypes' = Inr dataTypes'"
| "detectAll P items (header # hs) dataTypes' =
     (case column items header of
        Inl e \<Rightarrow> Inl e
      | Inr values \<Rightarrow>
          detectAll P items hs (AList.update header (detectDataType P values) dataTypes'))"

fun statisticsAll ::
  "platform \<Rightarrow> jsval list \<Rightarrow> (string \<times> string) list \<Rightarrow> string list \<Rightarrow>
     (string \<times> stat_entry) list \<Rightarrow> error + (string \<times> stat_entry) list" where
  "statisticsAll P items dataTypes' [] statistics' = Inr statistics'"
| "statisticsAll P items dataTypes' (header # hs) statistics' =
     (if map_of dataTypes' header = Some ''number'' then
        (case column items header of
           Inl e \<Rightarrow> Inl e
         | Inr vs \<Rightarrow>
             (case calculateStatistics P
                     (filter (\<lambda>val. \<not> isNaN val) (map (parseFloat P) vs)) of
                Inl e \<Rightarrow> Inl e
              | Inr stats \<Rightarrow>
                  statisticsAll P items dataTypes' hs
                    (AList.update header (StatsRecord stats) statistics')))
      else statisticsAll P items dataTypes' hs statistics')"

definition analyzeJSON :: "platform \<Rightarrow> jsval \<Rightarrow> error + PartialResult" where
  "analyzeJSON P content =
     (if \<not> truthy content \<or> \<not> typeof_object content then
        Inr \<lparr> p_summary = Some ''Empty or invalid JSON file.'',
              p_rowCount = None,
              p_columnCount = None,
              p_headers = None,
              p_dataTypes = None,
              p_sampleData = None,
              p_statistics = None,
              p_recommendations =
                Some [''Check the JSON format and try again'',
                      ''Ensure the file contains valid JSON data''] \<rparr>
      else
        (let items = (case content of Arr xs \<Rightarrow> xs | _ \<Rightarrow> [content]);
             rowCount = (case content of Arr xs \<Rightarrow> length xs | _ \<Rightarrow> 1);
             sampleData = (case content of Arr xs \<Rightarrow> take 5 xs | _ \<Rightarrow> [content])
         in
         case (case content of
                 Arr xs \<Rightarrow>
                   if rowCount > 0 \<and> typeof_object (xs ! 0) then Object_keys (xs ! 0)
                   else Inr []
               | _ \<Rightarrow> Object_keys content) of
           Inl e \<Rightarrow> Inl e
         | Inr headers' \<Rightarrow>
             (case detectAll P items headers' [] of
                Inl e \<Rightarrow> Inl e
              | Inr dataTypes' \<Rightarrow>
                  (case statisticsAll P items dataTypes' headers' [] of
                     Inl e \<Rightarrow> Inl e
                   | Inr statistics' \<Rightarrow>
                       Inr \<lparr> p_summary = Some (''JSON file with '' @ show_nat rowCount @
                               '' records and '' @ show_nat (length headers') @
                               '' fields. Contains '' @ show_nat (numericCount dataTypes') @
                               '' numeric fields suitable for analysis.''),
                             p_rowCount = Some (int rowCount),
                             p_columnCount = Some (length headers'),
                             p_headers = Some headers',
                             p_dataTypes = Some dataTypes',
                             p_sampleData = Some sampleData,
                             p_statistics = Some statistics',
                             p_recommendations =
                               Some (generateRecommendations dataTypes' (int rowCount)) \<rparr>))))"

section \<open>The text analyzer\<close>

text \<open>\<open>content.split(/\s+/)\<close>: the pieces between maximal runs of white space.\<close>

fun split_ws :: "string \<Rightarrow> string list" where
  "split_ws [] = [[]]"
| "split_ws (c # cs) =
     (if isWhiteSpace c then
        (case cs of
           [] \<Rightarrow> [[], []]
         | d # ds \<Rightarrow> if isWhiteSpace d then split_ws cs else [] # split_ws cs)
      else (case split_ws cs of [] \<Rightarrow> [[c]] | w # ws \<Rightarrow> (c # w) # ws))"

definition tabCount :: "string \<Rightarrow> nat" where
  "tabCount line = length (filter (\<lambda>c. c = CHR 0x09) line)"

text \<open>With no line left, \<open>every\<close> holds vacuously, \<open>isTabular\<close> is true, and the object
  literal reads \<open>lines[0].split\<close> on \<open>undefined\<close>: a \<open>TypeError\<close>.\<close>

definition analyzeTXT :: "string \<Rightarrow> error + PartialResult" where
  "analyzeTXT content =
     (let lines = filter (\<lambda>line. trim line \<noteq> []) (split_char CHR 0x0A content);
          wordCount = length (filter (\<lambda>word. trim word \<noteq> []) (split_ws content));
          charCount = length content;
          isTabular =
            list_all (\<lambda>line. tabCount line > 0 \<and> tabCount line = tabCount (lines ! 0)) lines;
          summary =
            (if isTabular
             then ''Text file with '' @ show_nat (length lines) @
                  '' rows that appears to be tab-delimited. Contains approximately '' @
                  show_nat wordCount @ '' words.''
             else ''Unstructured text file with '' @ show_nat (length lines) @
                  '' lines and '' @ show_nat wordCount @ '' words.'');
          recommendations =
            (if isTabular
             then [''Convert to CSV format for better analysis'',
                   ''Use text classification algorithms for content analysis'',
                   ''Consider natural language processing for text extraction'']
             else [''Use natural language processing algorithms'',
                   ''Consider sentiment analysis for text content'',
                   ''Text clustering may reveal patterns in the content''])
      in
      case (if isTabular
            then (case lines of
                    [] \<Rightarrow> Inl TypeError
                  | first # _ \<Rightarrow> Inr (Some (length (split_char CHR 0x09 first))))
            else Inr None) of
        Inl e \<Rightarrow> Inl e
      | Inr columnCount' \<Rightarrow>
          Inr \<lparr> p_summary = Some summary,
                p_rowCount = Some (int (length lines)),
                p_columnCount = columnCount',
                p_headers = None,
                p_dataTypes = None,
                p_sampleData = None,
                p_statistics =
                  Some [(''wordCount'', StatNumber (Fin (real wordCount))),
                        (''charCount'', StatNumber (Fin (real charCount))),
                        (''avgWordsPerLine'',
                           StatNumber (jdiv (Fin (real wordCount))
                             (Fin (real (if length lines = 0 then 1 else length lines)))))],
                p_recommendations = Some recommendations \<rparr>)"

section \<open>The file handle and the loader\<close>

text \<open>A \<open>File\<close> as the loader sees it: its name, its size in bytes, and the text a
  \<open>FileReader\<close> delivers (\<open>None\<close> when the read fails and \<open>onerror\<close> fires).\<close>

record File =
  name :: string
  size_bytes :: nat
  text_content :: "string option"

text \<open>\<open>file.name.split(".").pop()?.toLowerCase() || ""\<close>. The split is never empty, so
  \<open>pop\<close> yields its last piece; the fallback only replaces an empty piece by itself.\<close>

definition getFileType :: "File \<Rightarrow> string" where
  "getFileType file =
     (case rev (split_char CHR ''.'' (name file)) of
        [] \<Rightarrow> ''''
      | extension # _ \<Rightarrow>
          (if toLowerCase extension = '''' then '''' else toLowerCase extension))"

text \<open>\<open>readFileContent\<close>: the three text types are read as text, and the text of a
  \<open>json\<close> file is parsed, a parse error being caught and replaced by \<open>{}\<close>; any other
  type is read as an \<open>ArrayBuffer\<close>, which is not a string, so the promise resolves to
  \<open>null\<close>. A failed read rejects.\<close>

definition readFileContent :: "platform \<Rightarrow> File \<Rightarrow> string \<Rightarrow> error + jsval" where
  "readFileContent P file fileType' =
     (case text_content file of
        None \<Rightarrow> Inl ReadError
      | Some content \<Rightarrow>
          if fileType' = ''json'' \<or> fileType' = ''csv'' \<or> fileType' = ''txt'' then
            (if fileType' = ''json'' then
               (case JSON_parse P content of
                  Some parsed \<Rightarrow> Inr parsed
                | None \<Rightarrow> Inr (Obj []))
             else Inr (Str content))
          else Inr Null)"

section \<open>The dispatcher\<close>

text \<open>\<open>analyzeFile\<close>. The CSV and text analyzers call \<open>content.split\<close>, which is a
  \<open>TypeError\<close> on anything but a string (the loader always hands them one).\<close>

definition analyzeFile :: "platform \<Rightarrow> File \<Rightarrow> error + AnalysisResult" where
  "analyzeFile P file =
     (let fileType' = getFileType file;
          fileSize' = formatFileSize P (size_bytes file)
      in
      case readFileContent P file fileType' of
        Inl e \<Rightarrow> Inl e
      | Inr content \<Rightarrow>
          (let result =
                 \<lparr> summary = '''',
                   rowCount = None,
                   columnCount = None,
                   headers = None,
                   dataTypes = None,
                   sampleData = None,
                   statistics = None,
                   fileType = fileType',
                   fileSize = fileSize',
                   recommendations = Some [] \<rparr>
           in
           if fileType' = ''csv'' then
             (case content of
                Str s \<Rightarrow>
                  (case analyzeCSV P s of
                     Inl e \<Rightarrow> Inl e
                   | Inr partial \<Rightarrow> Inr (spread result partial))
              | _ \<Rightarrow> Inl TypeError)
           else if fileType' = ''json'' then
             (case analyzeJSON P content of
                Inl e \<Rightarrow> Inl e
              | Inr partial \<Rightarrow> Inr (spread result partial))
           else if fileType' = ''txt'' then
             (case content of
                Str s \<Rightarrow>
                  (case analyzeTXT s of
                     Inl e \<Rightarrow> Inl e
                   | Inr partial \<Rightarrow> Inr (spread result partial))
              | _ \<Rightarrow> Inl TypeError)
           else if fileType' = ''xlsx'' then
             Inr (result
                    \<lparr> summary := ''Excel file detected. Basic metadata analysis available.'',
                      recommendations :=
                        Some [''Consider converting to CSV for more detailed analysis'',
                              ''Use Random Forest algorithm for classification tasks'',
                              ''Export as graph visualization for better insights''] \<rparr>)
           else
             Inr (result
                    \<lparr> summary := ''Unsupported file format. Limited analysis available.'',
                      recommendations :=
                        Some [''Convert to a supported format (CSV, JSON, TXT)''] \<rparr>)))"

section \<open>The result generator\<close>

text \<open>
  The output configuration is the object of \<open>OutputConfigurationPanel\<close>
  (\<open>format: string; options: Record<string, any>\<close>), either key of which the page's
  initial state \<open>{}\<close> leaves out.
\<close>

record OutputConfig =
  format :: "string option"
  options :: "(string \<times> jsval) list option"

datatype ('g, 'd) content = Text string | Graph 'g | Data 'd

record ('g, 'd) Result =
  r_id :: string
  r_title :: string
  r_type :: string
  r_content :: "('g, 'd) content"
  r_timestamp :: string

text \<open>
  What \<open>generateResults\<close> reads from its surroundings: the clock (\<open>Date_now k\<close> is the
  value of the call of \<open>Date.now()\<close> made after \<open>k\<close> results were pushed, and
  \<open>toISOString\<close> the time stamp taken at the start), and the three payload builders. The
  builders fill the \<open>content\<close> field with placeholder output drawn from \<open>Math.random\<close>
  and the clock; they dereference only \<open>fileAnalysis\<close> and \<open>outputConfig\<close>, both objects
  here, and return for every argument.
\<close>

record ('g, 'd) host =
  Date_now :: "nat \<Rightarrow> nat"
  toISOString :: string
  generateTextResult :: "AnalysisResult \<Rightarrow> string \<Rightarrow> OutputConfig \<Rightarrow> string"
  generateGraphData :: "AnalysisResult \<Rightarrow> string \<Rightarrow> OutputConfig \<Rightarrow> 'g"
  generateDataOutput :: "AnalysisResult \<Rightarrow> string \<Rightarrow> OutputConfig \<Rightarrow> 'd"

definition getAlgorithmName :: "string \<Rightarrow> string" where
  "getAlgorithmName algorithmId =
     (case map_of
             [(''linear-regression'', ''Linear Regression''),
              (''decision-tree'', ''Decision Tree''),
              (''k-means'', ''K-Means Clustering''),
              (''neural-network'', ''Neural Network''),
              (''random-forest'', ''Random Forest''),
              (''xgboost'', ''XGBoost''),
              (''time-series'', ''ARIMA'')] algorithmId of
        Some n \<Rightarrow> n
      | None \<Rightarrow> ''Analysis'')"

text \<open>\<open>outputConfig.options?.[key]\<close>, read for its truthiness.\<close>

definition option_set :: "OutputConfig \<Rightarrow> string \<Rightarrow> bool" where
  "option_set outputConfig key =
     (case options outputConfig of
        None \<Rightarrow> False
      | Some opts \<Rightarrow> (case map_of opts key of None \<Rightarrow> False | Some v \<Rightarrow> truthy v))"

definition generateResults ::
  "('g, 'd) host \<Rightarrow> AnalysisResult option \<Rightarrow> string \<Rightarrow> OutputConfig \<Rightarrow> ('g, 'd) Result list" where
  "generateResults H fileAnalysis algorithmId outputConfig =
     (case fileAnalysis of
        None \<Rightarrow> []
      | Some fa \<Rightarrow>
          (let results = [];
               timestamp = toISOString H;
               format' = (case format outputConfig of
                            None \<Rightarrow> ''text''
                          | Some f \<Rightarrow> if f = [] then ''text'' else f);
               results = results @
                 [\<lparr> r_id = ''text-'' @ show_nat (Date_now H (length results)),
                    r_title = getAlgorithmName algorithmId @ '' Analysis Results'',
                    r_type = ''text'',
                    r_content = Text (generateTextResult H fa algorithmId outputConfig),
                    r_timestamp = timestamp \<rparr>];
               results =
                 (if format' = ''graph'' \<or> option_set outputConfig ''includeGraphs'' then
                    results @
                      [\<lparr> r_id = ''graph-'' @ show_nat (Date_now H (length results)),
                         r_title = getAlgorithmName algorithmId @ '' Visualization'',
                         r_type = ''graph'',
                         r_content = Graph (generateGraphData H fa algorithmId outputConfig),
                         r_timestamp = timestamp \<rparr>]
                  else results);
               results =
                 (if format' = ''data'' \<or> option_set outputConfig ''includeData'' then
                    results @
                      [\<lparr> r_id = ''data-'' @ show_nat (Date_now H (length results)),
                         r_title = getAlgorithmName algorithmId @ '' Data Output'',
                         r_type = ''data'',
                         r_content = Data (generateDataOutput H fa algorithmId outputConfig),
                         r_timestamp = timestamp \<rparr>]
                  else results);
               results =
                 (if format' = ''audio'' then
                    results @
                      [\<lparr> r_id = ''audio-'' @ show_nat (Date_now H (length results)),
                         r_title = getAlgorithmName algorithmId @ '' Audio Summary'',
                         r_type = ''audio'',
                         r_content = Text ''audio-content-placeholder'',
                         r_timestamp = timestamp \<rparr>]
                  else results);
               results =
                 (if format' = ''video'' then
                    results @
                      [\<lparr> r_id = ''video-'' @ show_nat (Date_now H (length results)),
                         r_title = getAlgorithmName algorithmId @ '' Video Presentation'',
                         r_type = ''video'',
                         r_content = Text ''video-content-placeholder'',
                         r_timestamp = timestamp \<rparr>]
                  else results)
           in results))"

section \<open>Reference notions\<close>

text \<open>A platform to evaluate examples on. Its \<open>JSON.parse\<close> reads the text \<open>{}\<close> and
  throws on the other texts used below, none of which is JSON. Its \<open>Math.pow\<close> and
  \<open>Math.sqrt\<close> are correctly rounded, and a call takes up to 125000 arguments.\<close>

definition sample_platform :: platform where
  "sample_platform =
     \<lparr> JSON_parse = (\<lambda>s. if s = ''{}'' then Some (Obj []) else None),
       Number_repr = (\<lambda>r. ''0.5''),
       Math_pow_approx = (\<lambda>a b. to_double (a * a)),
       Math_sqrt_approx = (\<lambda>a. to_double (sqrt a)),
       argument_limit = 125000,
       formatFileSize = (\<lambda>n. show_nat n @ '' Bytes'') \<rparr>"

text \<open>The descriptive statistics in the words of the specification, over the reals:
  the arithmetic mean, the midpoint of the ascending-sorted sequence, and the population
  standard deviation.\<close>

definition mean_of :: "real list \<Rightarrow> real" where
  "mean_of xs = sum_list xs / real (length xs)"

definition median_of :: "real list \<Rightarrow> real" where
  "median_of xs =
     (if even (length xs)
      then (sort xs ! (length xs div 2 - 1) + sort xs ! (length xs div 2)) / 2
      else sort xs ! (length xs div 2))"

definition stdDev_of :: "real list \<Rightarrow> real" where
  "stdDev_of xs = sqrt ((\<Sum>x\<leftarrow>xs. (x - mean_of xs)\<^sup>2) / real (length xs))"

text \<open>Claim C5 as it is stated: the record holds the minimum, the maximum, these three
  and the count.\<close>

definition statistics_as_specified :: "real list \<Rightarrow> (string \<times> jsnum) list \<Rightarrow> bool" where
  "statistics_as_specified xs r =
     (r = [(''min'', Fin (Min (set xs))),
           (''max'', Fin (Max (set xs))),
           (''mean'', Fin (mean_of xs)),
           (''median'', Fin (median_of xs)),
           (''stdDev'', Fin (stdDev_of xs)),
           (''count'', Fin (real (length xs)))])"

text \<open>Claim C2 as it is stated: every key of \<open>statistics\<close> is a header whose entry in
  \<open>dataTypes\<close> is \<open>number\<close>.\<close>

definition statistics_keys_numeric :: "AnalysisResult \<Rightarrow> bool" where
  "statistics_keys_numeric r =
     (case statistics r of
        None \<Rightarrow> True
      | Some st \<Rightarrow>
          list_all
            (\<lambda>k. k \<in> set (case headers r of None \<Rightarrow> [] | Some hs \<Rightarrow> hs) \<and>
                 map_of (case dataTypes r of None \<Rightarrow> [] | Some dt \<Rightarrow> dt) k = Some ''number'')
            (map fst st))"

section \<open>Rounding to a double\<close>

text \<open>
  Rounding leaves alone every real \<open>m * 2^k\<close> with \<open>\<bar>m\<bar> < 2^53\<close> and \<open>k\<close> not below the exponent
  of the smallest subnormal: these are the doubles. In particular the integers below
  \<open>2^53\<close> in magnitude and their halves are doubles. A real of magnitude \<open>2^1024\<close> or more
  rounds to an infinity, and the difference of two doubles rounds to a number of the
  sign of the exact difference, which is zero only when the two are equal.
\<close>

lemma round_even_of_int [simp]: "round_even (of_int n) = n"
  by (simp add: round_even_def)

lemma round_even_ge: "of_int m \<le> q \<Longrightarrow> m \<le> round_even q"
proof -
  assume "of_int m \<le> q"
  then have "m \<le> \<lfloor>q\<rfloor>" by (simp add: le_floor_iff)
  then show ?thesis by (auto simp: round_even_def Let_def)
qed

lemma round_even_le: "q \<le> of_int m \<Longrightarrow> round_even q \<le> m"
proof -
  assume a: "q \<le> of_int m"
  show ?thesis
  proof (cases "q = of_int m")
    case True
    then show ?thesis by simp
  next
    case False
    with a have "q < of_int m" by simp
    then have "\<lfloor>q\<rfloor> < m" by (simp add: floor_less_iff)
    then show ?thesis by (auto simp: round_even_def Let_def)
  qed
qed

lemma floor_log2_bounds:
  assumes "r \<noteq> 0"
  shows "2 powi \<lfloor>log 2 \<bar>r\<bar>\<rfloor> \<le> \<bar>r\<bar>" and "\<bar>r\<bar> < 2 powi (\<lfloor>log 2 \<bar>r\<bar>\<rfloor> + 1)"
proof -
  have pos: "0 < \<bar>r\<bar>" using assms by simp
  have "2 powr (of_int \<lfloor>log 2 \<bar>r\<bar>\<rfloor>) \<le> \<bar>r\<bar> \<and> \<bar>r\<bar> < 2 powr (of_int (\<lfloor>log 2 \<bar>r\<bar>\<rfloor> + 1))"
    using floor_log_eq_powr_iff [of "\<bar>r\<bar>" 2 "\<lfloor>log 2 \<bar>r\<bar>\<rfloor>"] pos by simp
  moreover have "2 powr (of_int k) = (2::real) powi k" for k
    by (simp add: powr_real_of_int')
  ultimately show "2 powi \<lfloor>log 2 \<bar>r\<bar>\<rfloor> \<le> \<bar>r\<bar>" and "\<bar>r\<bar> < 2 powi (\<lfloor>log 2 \<bar>r\<bar>\<rfloor> + 1)"
    by (simp_all del: of_int_add)
qed

lemma floor_log2_less:
  assumes "r \<noteq> 0" and "\<bar>r\<bar> < 2 powi k"
  shows "\<lfloor>log 2 \<bar>r\<bar>\<rfloor> < k"
proof (rule ccontr)
  assume "\<not> \<lfloor>log 2 \<bar>r\<bar>\<rfloor> < k"
  then have "k \<le> \<lfloor>log 2 \<bar>r\<bar>\<rfloor>" by simp
  then have "(2::real) powi k \<le> 2 powi \<lfloor>log 2 \<bar>r\<bar>\<rfloor>"
    by (intro power_int_increasing) auto
  with floor_log2_bounds(1) [OF assms(1)] assms(2) show False by linarith
qed

lemma floor_log2_ge:
  assumes "r \<noteq> 0" and "2 powi k \<le> \<bar>r\<bar>"
  shows "k \<le> \<lfloor>log 2 \<bar>r\<bar>\<rfloor>"
proof (rule ccontr)
  assume "\<not> k \<le> \<lfloor>log 2 \<bar>r\<bar>\<rfloor>"
  then have "\<lfloor>log 2 \<bar>r\<bar>\<rfloor> + 1 \<le> k" by simp
  then have "(2::real) powi (\<lfloor>log 2 \<bar>r\<bar>\<rfloor> + 1) \<le> 2 powi k"
    by (intro power_int_increasing) auto
  with floor_log2_bounds(2) [OF assms(1)] assms(2) show False by linarith
qed


lemma ulp_pos: "0 < (2::real) powi k"
  by (simp add: power_int_def)

lemma to_double_exact:
  assumes r: "r = of_int m * 2 powi k" and m: "\<bar>m\<bar> < 2 ^ 53" and k: "- 1074 \<le> k"
    and fin: "\<bar>r\<bar> < 2 ^ 1024"
  shows "to_double r = Fin r"
proof (cases "r = 0")
  case True
  then show ?thesis by (simp add: to_double_def)
next
  case False
  have "\<bar>r\<bar> = of_int \<bar>m\<bar> * 2 powi k"
    by (simp add: r abs_mult)
  also have "\<dots> < 2 ^ 53 * 2 powi k"
  proof -
    have "real_of_int \<bar>m\<bar> < 2 ^ 53" using m by (metis of_int_less_numeral_power_cancel_iff)
    then show ?thesis using ulp_pos [of k] by simp
  qed
  also have "\<dots> = 2 powi (53 + k)"
    by (simp add: power_int_add)
  finally have "\<lfloor>log 2 \<bar>r\<bar>\<rfloor> < 53 + k"
    using floor_log2_less [OF False] by blast
  then have e: "expo r - 52 \<le> k"
    using k by (simp add: expo_def)
  define u where "u = (2::real) powi (expo r - 52)"
  define d where "d = nat (k - (expo r - 52))"
  have u: "0 < u" by (simp add: u_def ulp_pos)
  have kd: "k = (expo r - 52) + int d"
    using e by (simp add: d_def)
  have "(2::real) powi k = u * 2 ^ d"
    unfolding u_def by (subst kd) (simp add: power_int_add)
  then have "r = of_int (m * 2 ^ d) * u"
    by (simp add: r)
  then have q: "r / u = of_int (m * 2 ^ d)" and "of_int (m * 2 ^ d) * u = r"
    using u by simp_all
  then have "of_int (round_even (r / u)) * u = r"
    by (simp only: round_even_of_int)
  then show ?thesis
    using False fin by (simp add: to_double_def Let_def u_def)
qed

lemma to_double_int:
  assumes "\<bar>n\<bar> < 2 ^ 53"
  shows "to_double (of_int n) = Fin (of_int n)"
proof -
  have "\<bar>real_of_int n\<bar> < 2 ^ 53"
    using assms by (metis of_int_abs of_int_less_numeral_power_cancel_iff)
  then have "\<bar>real_of_int n\<bar> < 2 ^ 1024"
    by (rule less_trans) simp
  then show ?thesis
    using to_double_exact [of "of_int n" n 0] assms by simp
qed

lemma to_double_half:
  assumes "\<bar>n\<bar> < 2 ^ 53"
  shows "to_double (of_int n / 2) = Fin (of_int n / 2)"
proof -
  have "\<bar>real_of_int n\<bar> < 2 ^ 53"
    using assms by (metis of_int_abs of_int_less_numeral_power_cancel_iff)
  then have "\<bar>real_of_int n / 2\<bar> < 2 ^ 1024"
    by simp
  then show ?thesis
    using to_double_exact [of "of_int n / 2" n "- 1"] assms by simp
qed

lemma to_double_overflow:
  assumes "2 ^ 1024 \<le> \<bar>r\<bar>"
  shows "to_double r = (if 0 < r then PosInf else NegInf)"
proof -
  have nz: "r \<noteq> 0" using assms by auto
  have "(2::real) powi 1024 \<le> \<bar>r\<bar>" using assms by simp
  then have e: "1024 \<le> \<lfloor>log 2 \<bar>r\<bar>\<rfloor>"
    using floor_log2_ge [OF nz] by blast
  then have ex: "expo r = \<lfloor>log 2 \<bar>r\<bar>\<rfloor>"
    by (simp add: expo_def)
  define u where "u = (2::real) powi (expo r - 52)"
  have u: "0 < u" by (simp add: u_def ulp_pos)
  have pe: "2 powi (expo r) = 2 ^ 52 * u"
    unfolding u_def by (simp add: power_int_diff)
  have lo: "2 powi (expo r) \<le> \<bar>r\<bar>"
    unfolding ex using floor_log2_bounds(1) [OF nz] .
  have big: "(2::real) ^ 1024 \<le> 2 powi (expo r)"
  proof -
    have "(2::real) powi 1024 \<le> 2 powi (expo r)"
      using e ex by (intro power_int_increasing) auto
    then show ?thesis by simp
  qed
  show ?thesis
  proof (cases "0 < r")
    case True
    with lo pe have "of_int (2 ^ 52) \<le> r / u"
      using u by (simp add: field_simps)
    then have "2 ^ 52 \<le> round_even (r / u)"
      by (rule round_even_ge)
    then have "(2::real) ^ 52 \<le> of_int (round_even (r / u))"
      by (metis of_int_le_iff of_int_numeral of_int_power)
    then have "2 ^ 52 * u \<le> of_int (round_even (r / u)) * u"
      using u by simp
    with pe big have "2 ^ 1024 \<le> \<bar>of_int (round_even (r / u)) * u\<bar>"
      by linarith
    then show ?thesis
      using True nz by (simp add: to_double_def Let_def u_def)
  next
    case False
    with nz have neg: "r < 0" by simp
    with lo pe have "r / u \<le> of_int (- (2 ^ 52))"
      using u by (simp add: field_simps)
    then have "round_even (r / u) \<le> - (2 ^ 52)"
      by (rule round_even_le)
    then have "of_int (round_even (r / u)) \<le> - ((2::real) ^ 52)"
      by (metis of_int_le_iff of_int_minus of_int_numeral of_int_power)
    then have "of_int (round_even (r / u)) * u \<le> - (2 ^ 52 * u)"
      using u by (simp add: mult_right_mono flip: mult_minus_left)
    with pe big have "2 ^ 1024 \<le> \<bar>of_int (round_even (r / u)) * u\<bar>"
      by linarith
    then show ?thesis
      using False nz by (simp add: to_double_def Let_def u_def)
  qed
qed

lemma to_double_nonpos:
  assumes "x \<le> 0"
  shows "(\<exists>v\<le>0. to_double x = Fin v) \<or> to_double x = NegInf"
proof (cases "x = 0")
  case True
  then show ?thesis by (simp add: to_double_def)
next
  case False
  define u where "u = (2::real) powi (expo x - 52)"
  have u: "0 < u" by (simp add: u_def ulp_pos)
  have "x / u \<le> of_int 0" using assms u by (simp add: field_simps)
  then have "round_even (x / u) \<le> 0" by (rule round_even_le)
  then have "of_int (round_even (x / u)) * u \<le> 0"
    using u by (simp add: mult_le_0_iff)
  then show ?thesis
    using False assms by (auto simp: to_double_def Let_def u_def)
qed

lemma to_double_pos:
  assumes "2 powi (- 1074) \<le> x"
  shows "(\<exists>v>0. to_double x = Fin v) \<or> to_double x = PosInf"
proof -
  have xpos: "0 < x" using assms ulp_pos [of "- 1074"] by linarith
  then have nz: "x \<noteq> 0" by simp
  define u where "u = (2::real) powi (expo x - 52)"
  have u: "0 < u" by (simp add: u_def ulp_pos)
  have "u \<le> x"
  proof (cases "- 1022 \<le> \<lfloor>log 2 \<bar>x\<bar>\<rfloor>")
    case True
    then have "expo x = \<lfloor>log 2 \<bar>x\<bar>\<rfloor>" by (simp add: expo_def)
    then have "2 powi (expo x) \<le> x"
      using floor_log2_bounds(1) [OF nz] xpos by simp
    moreover have "u \<le> 2 powi (expo x)"
      unfolding u_def by (intro power_int_increasing) auto
    ultimately show ?thesis by linarith
  next
    case False
    then have "expo x = - 1022" by (simp add: expo_def)
    then have "u = 2 powi (- 1074)" by (simp add: u_def)
    with assms show ?thesis by simp
  qed
  then have "of_int 1 \<le> x / u" using u by (simp add: field_simps)
  then have "1 \<le> round_even (x / u)" by (rule round_even_ge)
  then have "0 < real_of_int (round_even (x / u)) * u"
    using u by simp
  then show ?thesis
    using nz xpos by (auto simp: to_double_def Let_def u_def)
qed

lemma double_grid:
  assumes "is_double r"
  shows "\<exists>n::int. r = of_int n * 2 powi (- 1074)"
proof (cases "r = 0")
  case True
  then show ?thesis by (intro exI [of _ 0]) simp
next
  case False
  define u where "u = (2::real) powi (expo r - 52)"
  from assms False have v: "of_int (round_even (r / u)) * u = r"
    by (auto simp: is_double_def to_double_def Let_def u_def split: if_splits)
  define d where "d = nat (expo r - 52 + 1074)"
  define g where "g = (2::real) powi (- 1074)"
  have "- 1022 \<le> expo r" by (simp add: expo_def)
  then have "expo r - 52 = - 1074 + int d" by (simp add: d_def)
  then have "u = 2 powi (- 1074 + int d)" by (simp only: u_def)
  also have "\<dots> = g * 2 powi (int d)"
    unfolding g_def by (rule power_int_add) simp
  finally have "u = 2 ^ d * g" by simp
  with v have "r = of_int (round_even (r / u) * 2 ^ d) * g"
    by simp
  then show ?thesis unfolding g_def by blast
qed

lemma double_diff_sign:
  assumes "is_double a" and "is_double b"
  shows "a \<le> b \<and> ((\<exists>v\<le>0. to_double (a - b) = Fin v) \<or> to_double (a - b) = NegInf)
       \<or> b < a \<and> ((\<exists>v>0. to_double (a - b) = Fin v) \<or> to_double (a - b) = PosInf)"
proof (cases "a \<le> b")
  case True
  then show ?thesis using to_double_nonpos [of "a - b"] by simp
next
  case False
  from double_grid [OF assms(1)] double_grid [OF assms(2)]
  obtain na nb :: int where ab: "a = of_int na * 2 powi (- 1074)" "b = of_int nb * 2 powi (- 1074)"
    by blast
  have g: "0 < (2::real) powi (- 1074)" by (rule ulp_pos)
  from False have "b < a" by simp
  then have "nb < na" using g unfolding ab by (simp add: mult_less_cancel_right)
  then have "1 \<le> na - nb" by simp
  then have "(1::real) \<le> of_int (na - nb)" by linarith
  then have "1 * 2 powi (- 1074) \<le> of_int (na - nb) * (2::real) powi (- 1074)"
    using g by (intro mult_right_mono) auto
  then have "2 powi (- 1074) \<le> a - b"
    unfolding ab by (simp add: algebra_simps)
  from to_double_pos [OF this] \<open>b < a\<close> show ?thesis by simp
qed

lemma to_double_zero: "to_double 0 = Fin 0"
  by (simp add: to_double_def)

lemma to_double_Ints:
  assumes "r \<in> \<int>" and "\<bar>r\<bar> < 2 ^ 53"
  shows "to_double r = Fin r"
proof -
  from assms(1) obtain n :: int where r: "r = of_int n" by (rule Ints_cases)
  have "\<bar>n\<bar> < 2 ^ 53"
    using assms(2) unfolding r by (metis of_int_abs of_int_less_numeral_power_cancel_iff)
  then show ?thesis unfolding r by (rule to_double_int)
qed

lemma to_double_one: "to_double 1 = Fin 1"
  using to_double_int [of 1] by simp

lemma to_double_numeral:
  "(numeral k :: int) < 2 ^ 53 \<Longrightarrow> to_double (numeral k) = Fin (numeral k)"
  using to_double_int [of "numeral k"] by simp

lemma to_double_half_numeral:
  "(numeral k :: int) < 2 ^ 53 \<Longrightarrow> to_double (numeral k / 2) = Fin (numeral k / 2)"
  using to_double_half [of "numeral k"] by simp

lemma is_double_Ints: "r \<in> \<int> \<Longrightarrow> \<bar>r\<bar> < 2 ^ 53 \<Longrightarrow> is_double r"
  by (simp add: is_double_def to_double_Ints)

lemma is_double_numeral: "(numeral k :: int) < 2 ^ 53 \<Longrightarrow> is_double (numeral k)"
  by (simp add: is_double_def to_double_numeral)

lemma to_double_half_Ints:
  assumes "r \<in> \<int>" and "\<bar>r\<bar> < 2 ^ 53"
  shows "to_double (r / 2) = Fin (r / 2)"
proof -
  from assms(1) obtain n :: int where r: "r = of_int n" by (rule Ints_cases)
  have "\<bar>n\<bar> < 2 ^ 53"
    using assms(2) unfolding r by (metis of_int_abs of_int_less_numeral_power_cancel_iff)
  then show ?thesis unfolding r by (rule to_double_half)
qed

section \<open>Properties of splitting\<close>

lemma split_char_not_Nil: "split_char sep s \<noteq> []"
  by (induction s) (auto split: list.splits)

lemma split_char_no_sep: "sep \<notin> set s \<Longrightarrow> split_char sep s = [s]"
  by (induction s) auto

lemma split_char_sep_append:
  "sep \<notin> set a \<Longrightarrow> split_char sep (a @ sep # b) = a # split_char sep b"
  by (induction a) (auto split: list.splits)

lemma length_split_char:
  "length (split_char sep s) = Suc (length (filter (\<lambda>c. c = sep) s))"
  by (induction s) (auto split: list.splits)

lemma last_split_char_Cons:
  "last (split_char sep (c # s)) =
     (if sep \<in> set s \<or> c = sep then last (split_char sep s) else c # s)"
proof (cases "split_char sep s")
  case Nil
  then show ?thesis using split_char_not_Nil by blast
next
  case (Cons w ws)
  show ?thesis
  proof (cases "sep \<in> set s")
    case True
    then have "filter (\<lambda>c. c = sep) s \<noteq> []"
      by (auto simp: filter_empty_conv)
    then have "length (split_char sep s) \<ge> 2"
      by (cases "filter (\<lambda>c. c = sep) s") (auto simp: length_split_char)
    with Cons have "ws \<noteq> []" by auto
    with Cons True show ?thesis by simp
  next
    case False
    then show ?thesis by (simp add: split_char_no_sep)
  qed
qed

lemma split_char_last:
  "sep \<notin> set b \<Longrightarrow> last (split_char sep (a @ sep # b)) = b"
proof (induction a)
  case Nil
  then show ?case by (simp add: split_char_no_sep)
next
  case (Cons c a)
  then show ?case
    by (simp only: append_Cons last_split_char_Cons) simp
qed

lemma split_char_join:
  "ls \<noteq> [] \<Longrightarrow> \<forall>l \<in> set ls. sep \<notin> set l \<Longrightarrow>
     split_char sep (join_with [sep] ls) = ls"
proof (induction ls)
  case Nil
  then show ?case by simp
next
  case (Cons x ys)
  show ?case
  proof (cases ys)
    case Nil
    with Cons.prems show ?thesis by (simp add: split_char_no_sep)
  next
    case (Cons y zs)
    with Cons.prems Cons.IH show ?thesis
      by (simp add: split_char_sep_append)
  qed
qed

section \<open>The extension of a file name\<close>

text \<open>When the name has a dot, the extension is the lower-cased text after the last
  one.\<close>

lemma getFileType_after_last_dot:
  "CHR ''.'' \<notin> set b \<Longrightarrow> name file = a @ CHR ''.'' # b \<Longrightarrow>
     getFileType file = toLowerCase b"
  using split_char_last [of "CHR ''.''" b a]
    split_char_not_Nil [of "CHR ''.''" "a @ CHR ''.'' # b"]
  by (cases "rev (split_char CHR ''.'' (a @ CHR ''.'' # b))")
     (auto simp: getFileType_def toLowerCase_def last_rev hd_rev dest!: arg_cong [where f=hd])

text \<open>
  Claim C9 says that the extension is the lower-cased text after the last dot of the
  name, and the empty string when the name has no dot. The first half is
  \<open>getFileType_after_last_dot\<close>. The second half fails: a name without a dot is the
  single piece of its split, so \<open>pop\<close> returns the whole name and the extension is the
  whole name in lower case. A file called \<open>README\<close> has type \<open>readme\<close>, and a file
  called \<open>csv\<close> is analysed as CSV.
\<close>

theorem getFileType_no_dot:
  "CHR ''.'' \<notin> set (name file) \<Longrightarrow> getFileType file = toLowerCase (name file)"
  by (simp add: getFileType_def split_char_no_sep toLowerCase_def)

theorem getFileType_no_dot_witness:
  "CHR ''.'' \<notin> set ''README'' \<and>
   getFileType \<lparr>name = ''README'', size_bytes = 12, text_content = Some ''hello''\<rparr>
     = ''readme''"
  using getFileType_no_dot
    [of "\<lparr>name = ''README'', size_bytes = 12, text_content = Some ''hello''\<rparr>"]
  by (simp add: toLowerCase_def lowerChar_def char_of_def bit_0)

section \<open>The CSV analyzer on empty input\<close>

text \<open>
  Claim C6: when the text is empty, or every line of it is blank after trimming, the CSV
  analyzer returns the summary \<open>Empty CSV file detected.\<close> with \<open>rowCount\<close> 0 and
  \<open>columnCount\<close> 0, and sets none of \<open>headers\<close>, \<open>dataTypes\<close>, \<open>sampleData\<close>,
  \<open>statistics\<close> and \<open>recommendations\<close>.
\<close>

theorem analyzeCSV_empty:
  "\<forall>line \<in> set (split_char CHR 0x0A content). trim line = [] \<Longrightarrow>
   analyzeCSV P content =
     Inr \<lparr> p_summary = Some ''Empty CSV file detected.'',
           p_rowCount = Some 0,
           p_columnCount = Some 0,
           p_headers = None,
           p_dataTypes = None,
           p_sampleData = None,
           p_statistics = None,
           p_recommendations = None \<rparr>"
proof -
  assume "\<forall>line \<in> set (split_char CHR 0x0A content). trim line = []"
  then have "filter (\<lambda>line. trim line \<noteq> []) (split_char CHR 0x0A content) = []"
    by (simp add: filter_empty_conv)
  then show ?thesis
    by (simp add: analyzeCSV_def)
qed

theorem analyzeCSV_empty_witness:
  "list_all (\<lambda>line. trim line = [])
     (split_char CHR 0x0A [CHR '' '', CHR 0x0A, CHR 0x09, CHR 0x0D, CHR 0x0A]) \<and>
   list_all (\<lambda>line. trim line = []) (split_char CHR 0x0A []) \<and>
   (case analyzeCSV sample_platform [CHR '' '', CHR 0x0A, CHR 0x09, CHR 0x0D, CHR 0x0A] of
      Inl e \<Rightarrow> False
    | Inr p \<Rightarrow> p_summary p = Some ''Empty CSV file detected.'') \<and>
   (case analyzeCSV sample_platform [] of
      Inl e \<Rightarrow> False
    | Inr p \<Rightarrow> p_rowCount p = Some 0 \<and> p_headers p = None)"
  using analyzeCSV_empty
      [of "[CHR '' '', CHR 0x0A, CHR 0x09, CHR 0x0D, CHR 0x0A]" sample_platform]
    analyzeCSV_empty [of "[]" sample_platform]
  by (simp add: trim_def trimStart_def trimEnd_def isWhiteSpace_def)

text \<open>The text analyzer has no such branch: on the same input it throws.\<close>

lemma analyzeTXT_blank_throws:
  "\<forall>line \<in> set (split_char CHR 0x0A content). trim line = [] \<Longrightarrow>
   analyzeTXT content = Inl TypeError"
proof -
  assume "\<forall>line \<in> set (split_char CHR 0x0A content). trim line = []"
  then have "filter (\<lambda>line. trim line \<noteq> []) (split_char CHR 0x0A content) = []"
    by (simp add: filter_empty_conv)
  then show ?thesis
    by (simp add: analyzeTXT_def Let_def)
qed

section \<open>The recommendation rules\<close>

lemma push_if: "(if c then r @ [s] else r) = r @ (if c then [s] else [])"
  by simp

lemma push_if_else: "(if c then r @ [s] else r @ ys) = r @ (if c then [s] else ys)"
  by simp

text \<open>
  Claim C4: the recommendations are a function of the \<open>dataTypes\<close> dictionary and
  \<open>rowCount\<close> alone, made of seven rules in a fixed order, each contributing no string
  or one string; for the types number, number, number, number, string and 50 rows
  the result is the Random Forest, PCA, K-Nearest Neighbors, graph and pie-chart
  strings, in this order.
\<close>

theorem generateRecommendations_rules:
  "generateRecommendations dt rc =
     (let numeric = length (filter (\<lambda>t. t = ''number'') (map snd dt));
          categorical = length (filter (\<lambda>t. t = ''string'' \<or> t = ''boolean'') (map snd dt));
          dates = length (filter (\<lambda>t. t = ''date'') (map snd dt))
      in
        (if numeric > 0 \<and> categorical > 0
         then [''Random Forest algorithm is recommended for mixed numeric and categorical data'']
         else []) @
        (if numeric > 3
         then [''Principal Component Analysis (PCA) can help reduce dimensionality'']
         else []) @
        (if categorical > numeric
         then [''Decision Tree algorithm works well with categorical data'']
         else []) @
        (if dates > 0
         then [''Time Series analysis is recommended for temporal data'']
         else []) @
        (if rc > 1000 then [''XGBoost algorithm performs well on large datasets'']
         else if rc < 100
         then [''K-Nearest Neighbors algorithm works well with smaller datasets'']
         else []) @
        (if numeric > 3
         then [''Graph visualization is recommended for multi-dimensional data'']
         else if numeric > 0
         then [''Bar charts or line graphs are recommended for numeric data visualization'']
         else []) @
        (if categorical > 0
         then [''Pie charts are effective for categorical data distribution'']
         else []))
   \<and> generateRecommendations
         [(''a'', ''number''), (''b'', ''number''), (''c'', ''number''), (''d'', ''number''),
          (''e'', ''string'')] 50 =
       [''Random Forest algorithm is recommended for mixed numeric and categorical data'',
        ''Principal Component Analysis (PCA) can help reduce dimensionality'',
        ''K-Nearest Neighbors algorithm works well with smaller datasets'',
        ''Graph visualization is recommended for multi-dimensional data'',
        ''Pie charts are effective for categorical data distribution'']"
proof (rule conjI)
  show "generateRecommendations dt rc =
     (let numeric = length (filter (\<lambda>t. t = ''number'') (map snd dt));
          categorical = length (filter (\<lambda>t. t = ''string'' \<or> t = ''boolean'') (map snd dt));
          dates = length (filter (\<lambda>t. t = ''date'') (map snd dt))
      in
        (if numeric > 0 \<and> categorical > 0
         then [''Random Forest algorithm is recommended for mixed numeric and categorical data'']
         else []) @
        (if numeric > 3
         then [''Principal Component Analysis (PCA) can help reduce dimensionality'']
         else []) @
        (if categorical > numeric
         then [''Decision Tree algorithm works well with categorical data'']
         else []) @
        (if dates > 0
         then [''Time Series analysis is recommended for temporal data'']
         else []) @
        (if rc > 1000 then [''XGBoost algorithm performs well on large datasets'']
         else if rc < 100
         then [''K-Nearest Neighbors algorithm works well with smaller datasets'']
         else []) @
        (if numeric > 3
         then [''Graph visualization is recommended for multi-dimensional data'']
         else if numeric > 0
         then [''Bar charts or line graphs are recommended for numeric data visualization'']
         else []) @
        (if categorical > 0
         then [''Pie charts are effective for categorical data distribution'']
         else []))"
    unfolding generateRecommendations_def Object_values_def Let_def push_if push_if_else
    by (simp only: append_assoc append_Nil)
next
  show "generateRecommendations
         [(''a'', ''number''), (''b'', ''number''), (''c'', ''number''), (''d'', ''number''),
          (''e'', ''string'')] 50 =
       [''Random Forest algorithm is recommended for mixed numeric and categorical data'',
        ''Principal Component Analysis (PCA) can help reduce dimensionality'',
        ''K-Nearest Neighbors algorithm works well with smaller datasets'',
        ''Graph visualization is recommended for multi-dimensional data'',
        ''Pie charts are effective for categorical data distribution'']"
    unfolding generateRecommendations_def Object_values_def Let_def by simp
qed

section \<open>The statistics of a sequence of doubles\<close>

lemma not_after_double:
  "is_double a \<Longrightarrow> is_double b \<Longrightarrow> not_after (Fin a) (Fin b) = (a \<le> b)"
  using double_diff_sign [of a b] by (auto simp: not_after_def jsub_def)

lemma insert_sorted_double:
  "is_double x \<Longrightarrow> \<forall>y \<in> set ys. is_double y \<Longrightarrow>
   insert_sorted (Fin x) (map Fin ys) = map Fin (insort x ys)"
  by (induction ys) (simp_all add: not_after_double)

lemma js_sort_double:
  "\<forall>x \<in> set xs. is_double x \<Longrightarrow> js_sort (map Fin xs) = map Fin (sort xs)"
proof (induction xs)
  case Nil
  then show ?case by (simp add: js_sort_def)
next
  case (Cons x xs)
  then have "js_sort (map Fin xs) = map Fin (sort xs)" by simp
  then have "js_sort (map Fin (x # xs)) = insert_sorted (Fin x) (map Fin (sort xs))"
    by (simp add: js_sort_def)
  also have "\<dots> = map Fin (insort x (sort xs))"
    using Cons.prems by (intro insert_sorted_double) simp_all
  finally show ?case by (simp add: sort_key_simps)
qed

lemma foldl_jadd_Ints:
  "a \<in> \<int> \<Longrightarrow> \<forall>x \<in> set xs. x \<in> \<int> \<Longrightarrow> \<bar>a\<bar> + (\<Sum>x\<leftarrow>xs. \<bar>x\<bar>) < 2 ^ 53 \<Longrightarrow>
   foldl jadd (Fin a) (map Fin xs) = Fin (a + sum_list xs)"
proof (induction xs arbitrary: a)
  case Nil
  then show ?case by simp
next
  case (Cons x xs)
  have nn: "0 \<le> (\<Sum>x\<leftarrow>xs. \<bar>x\<bar>)" by (rule sum_list_nonneg) auto
  have "a + x \<in> \<int>" using Cons.prems by simp
  moreover have b: "\<bar>a + x\<bar> + (\<Sum>x\<leftarrow>xs. \<bar>x\<bar>) < 2 ^ 53"
    using Cons.prems(3) by simp
  then have "\<bar>a + x\<bar> < 2 ^ 53" using nn by linarith
  ultimately have "jadd (Fin a) (Fin x) = Fin (a + x)"
    by (simp add: to_double_Ints)
  moreover have "foldl jadd (Fin (a + x)) (map Fin xs) = Fin (a + x + sum_list xs)"
    using Cons.prems \<open>a + x \<in> \<int>\<close> b by (intro Cons.IH) simp_all
  ultimately show ?case by (simp add: add.assoc)
qed

lemma foldl_jmin_Fin: "foldl jmin (Fin a) (map Fin xs) = Fin (fold min xs a)"
  by (induction xs arbitrary: a) (auto simp: min.commute)

lemma foldl_jmax_Fin: "foldl jmax (Fin a) (map Fin xs) = Fin (fold max xs a)"
  by (induction xs arbitrary: a) (auto simp: max.commute)

lemma Math_min_Fin:
  assumes "xs \<noteq> []" and "length xs \<le> argument_limit P"
  shows "Math_min P (map Fin xs) = Inr (Fin (Min (set xs)))"
proof (cases xs)
  case Nil
  with assms show ?thesis by simp
next
  case (Cons a list)
  have "Min (set (a # list)) = fold min list a"
    by (rule Min.set_eq_fold)
  with Cons assms(2) show ?thesis
    by (simp add: Math_min_def foldl_jmin_Fin)
qed

lemma Math_max_Fin:
  assumes "xs \<noteq> []" and "length xs \<le> argument_limit P"
  shows "Math_max P (map Fin xs) = Inr (Fin (Max (set xs)))"
proof (cases xs)
  case Nil
  with assms show ?thesis by simp
next
  case (Cons a list)
  have "Max (set (a # list)) = fold max list a"
    by (rule Max.set_eq_fold)
  with Cons assms(2) show ?thesis
    by (simp add: Math_max_def foldl_jmax_Fin)
qed

lemma sum_list_abs_insort:
  "(\<Sum>y\<leftarrow>insort x ys. \<bar>y\<bar>) = \<bar>x\<bar> + (\<Sum>y\<leftarrow>ys. \<bar>y :: real\<bar>)"
  by (induction ys) simp_all

lemma sum_list_abs_sort: "(\<Sum>y\<leftarrow>sort xs. \<bar>y\<bar>) = (\<Sum>y\<leftarrow>xs. \<bar>y :: real\<bar>)"
  by (induction xs) (simp_all add: sort_key_simps sum_list_abs_insort)

lemma sum_list_abs_nth:
  "i < length ys \<Longrightarrow> \<bar>ys ! i\<bar> \<le> (\<Sum>y\<leftarrow>ys. \<bar>y :: real\<bar>)"
proof (induction ys arbitrary: i)
  case Nil
  then show ?case by simp
next
  case (Cons y ys)
  have nn: "0 \<le> (\<Sum>y\<leftarrow>ys. \<bar>y\<bar>)" by (rule sum_list_nonneg) auto
  show ?case
  proof (cases i)
    case 0
    then show ?thesis using nn by simp
  next
    case (Suc j)
    with Cons.prems have "j < length ys" by simp
    from Cons.IH [OF this] Suc show ?thesis by simp
  qed
qed

lemma sum_list_abs_two:
  "i < j \<Longrightarrow> j < length ys \<Longrightarrow> \<bar>ys ! i\<bar> + \<bar>ys ! j\<bar> \<le> (\<Sum>y\<leftarrow>ys. \<bar>y :: real\<bar>)"
proof (induction ys arbitrary: i j)
  case Nil
  then show ?case by simp
next
  case (Cons y ys)
  from Cons.prems obtain j' where j: "j = Suc j'" by (cases j) auto
  with Cons.prems have j': "j' < length ys" by simp
  show ?case
  proof (cases i)
    case 0
    with j sum_list_abs_nth [OF j'] show ?thesis by simp
  next
    case (Suc i')
    with Cons.prems j have "i' < j'" by simp
    from Cons.IH [OF this j'] Suc j show ?thesis by simp
  qed
qed

lemma calculateStatistics_empty: "calculateStatistics P [] = Inr []"
  by (simp add: calculateStatistics_def)

lemma calculateStatistics_RangeError:
  "argument_limit P < length values \<Longrightarrow> calculateStatistics P values = Inl RangeError"
  by (auto simp: calculateStatistics_def Let_def Math_min_def)

lemma calculateStatistics_throws:
  "calculateStatistics P values = Inl e \<Longrightarrow> e = RangeError \<and> argument_limit P < length values"
  by (auto simp: calculateStatistics_def Let_def Math_min_def Math_max_def split: if_splits)

lemma foldl_jadd_zeros: "foldl jadd (Fin 0) (map (\<lambda>x. Fin 0) xs) = Fin 0"
  by (induction xs) (simp_all add: to_double_zero)

lemma calculateStatistics_doubles:
  assumes ne: "xs \<noteq> []" and lim: "length xs \<le> argument_limit P"
    and d: "\<forall>x \<in> set xs. is_double x"
  shows "\<exists>mean median stdDev.
     calculateStatistics P (map Fin xs) =
       Inr [(''min'', Fin (Min (set xs))),
            (''max'', Fin (Max (set xs))),
            (''mean'', mean),
            (''median'', median),
            (''stdDev'', stdDev),
            (''count'', Fin (real (length xs)))] \<and>
     mean = jdiv (foldl jadd (Fin 0) (map Fin xs)) (Fin (real (length xs))) \<and>
     median =
       (if even (length xs)
        then jdiv (jadd (Fin (sort xs ! (length xs div 2 - 1)))
                        (Fin (sort xs ! (length xs div 2)))) (Fin 2)
        else Fin (sort xs ! (length xs div 2))) \<and>
     stdDev =
       Math_sqrt P
         (jdiv (foldl jadd (Fin 0) (map (\<lambda>x. Math_pow2 P (jsub (Fin x) mean)) xs))
            (Fin (real (length xs)))) \<and>
     ((\<forall>x \<in> set xs. x \<in> \<int>) \<and> (\<Sum>x\<leftarrow>xs. \<bar>x\<bar>) < 2 ^ 53 \<longrightarrow>
        mean = to_double (sum_list xs / real (length xs)) \<and>
        (even (length xs) \<longrightarrow>
           median = Fin ((sort xs ! (length xs div 2 - 1) + sort xs ! (length xs div 2)) / 2)) \<and>
        ((\<forall>x \<in> set xs. x = hd xs) \<longrightarrow> mean = Fin (hd xs) \<and> stdDev = Fin 0))"
proof -
  define vs where "vs = map Fin xs"
  define n where "n = length xs"
  define mean where "mean = jdiv (foldl jadd (Fin 0) vs) (Fin (real (length vs)))"
  define median where "median =
    (if length (js_sort vs) mod 2 = 0
     then jdiv (jadd (js_sort vs ! (length (js_sort vs) div 2 - 1))
                     (js_sort vs ! (length (js_sort vs) div 2))) (Fin 2)
     else js_sort vs ! (length (js_sort vs) div 2))"
  define stdDev where "stdDev =
    Math_sqrt P (jdiv (foldl jadd (Fin 0) (map (\<lambda>value. Math_pow2 P (jsub value mean)) vs))
                   (Fin (real (length vs))))"
  have len: "length vs \<noteq> 0" "length vs = n" "0 < n" "real n \<noteq> 0"
    using ne by (auto simp: vs_def n_def)
  have mn: "Math_min P vs = Inr (Fin (Min (set xs)))"
    and mx: "Math_max P vs = Inr (Fin (Max (set xs)))"
    using ne lim by (simp_all add: vs_def Math_min_Fin Math_max_Fin)
  have res: "calculateStatistics P vs =
       Inr [(''min'', Fin (Min (set xs))),
            (''max'', Fin (Max (set xs))),
            (''mean'', mean),
            (''median'', median),
            (''stdDev'', stdDev),
            (''count'', Fin (real n))]"
    unfolding calculateStatistics_def Let_def mn mx mean_def [symmetric]
      median_def [symmetric] stdDev_def [symmetric]
    using len by simp
  have srt: "js_sort vs = map Fin (sort xs)"
    unfolding vs_def using d by (rule js_sort_double)
  have idx: "n div 2 < n" using len by simp
  have gen_mean: "mean = jdiv (foldl jadd (Fin 0) (map Fin xs)) (Fin (real n))"
    unfolding mean_def vs_def by (simp add: n_def)
  have gen_median: "median =
       (if even n
        then jdiv (jadd (Fin (sort xs ! (n div 2 - 1))) (Fin (sort xs ! (n div 2)))) (Fin 2)
        else Fin (sort xs ! (n div 2)))"
  proof -
    have "n div 2 - 1 < length (sort xs)" "n div 2 < length (sort xs)"
      using idx by (simp_all add: n_def less_imp_diff_less)
    then have "js_sort vs ! (n div 2 - 1) = Fin (sort xs ! (n div 2 - 1))"
      and "js_sort vs ! (n div 2) = Fin (sort xs ! (n div 2))"
      unfolding srt by simp_all
    moreover have "length (js_sort vs) = n"
      unfolding srt by (simp add: n_def)
    ultimately show ?thesis
      unfolding median_def by (simp add: even_iff_mod_2_eq_zero)
  qed
  have gen_stdDev: "stdDev =
       Math_sqrt P
         (jdiv (foldl jadd (Fin 0) (map (\<lambda>x. Math_pow2 P (jsub (Fin x) mean)) xs))
            (Fin (real n)))"
    unfolding stdDev_def vs_def by (simp add: n_def comp_def)
  have odd: "median = Fin (sort xs ! (n div 2))" if "odd n"
    using that idx unfolding median_def srt by (simp add: n_def odd_iff_mod_2_eq_one)
  have ints: "mean = to_double (sum_list xs / real n) \<and>
        (even n \<longrightarrow> median = Fin ((sort xs ! (n div 2 - 1) + sort xs ! (n div 2)) / 2)) \<and>
        ((\<forall>x \<in> set xs. x = hd xs) \<longrightarrow> mean = Fin (hd xs) \<and> stdDev = Fin 0)"
    if i: "\<forall>x \<in> set xs. x \<in> \<int>" and b: "(\<Sum>x\<leftarrow>xs. \<bar>x\<bar>) < 2 ^ 53"
  proof (intro conjI impI)
    have sum: "foldl jadd (Fin 0) vs = Fin (sum_list xs)"
      unfolding vs_def using foldl_jadd_Ints [of 0 xs] i b by simp
    show m: "mean = to_double (sum_list xs / real n)"
      unfolding mean_def sum using len by simp
    show "median = Fin ((sort xs ! (n div 2 - 1) + sort xs ! (n div 2)) / 2)" if "even n"
    proof -
      define a where "a = sort xs ! (n div 2 - 1)"
      define c where "c = sort xs ! (n div 2)"
      from that len(3) have "2 \<le> n" by presburger
      then have lt: "n div 2 - 1 < n div 2" by simp
      have ln: "n div 2 < length (sort xs)" using idx by (simp add: n_def)
      have "a \<in> set (sort xs)" "c \<in> set (sort xs)"
        unfolding a_def c_def using ln lt by (intro nth_mem; simp)+
      then have ac: "a \<in> \<int>" "c \<in> \<int>" using i by simp_all
      have "\<bar>a\<bar> + \<bar>c\<bar> \<le> (\<Sum>y\<leftarrow>sort xs. \<bar>y\<bar>)"
        unfolding a_def c_def using lt ln by (rule sum_list_abs_two)
      then have "\<bar>a + c\<bar> < 2 ^ 53"
        using b unfolding sum_list_abs_sort by linarith
      moreover have "a + c \<in> \<int>" using ac by simp
      ultimately have "to_double (a + c) = Fin (a + c)"
        and "to_double ((a + c) / 2) = Fin ((a + c) / 2)"
        by (simp_all add: to_double_Ints to_double_half_Ints)
      moreover have "js_sort vs ! (n div 2 - 1) = Fin a" "js_sort vs ! (n div 2) = Fin c"
        unfolding srt a_def c_def using ln lt by simp_all
      moreover have "length (js_sort vs) = n"
        unfolding srt by (simp add: n_def)
      ultimately show ?thesis
        unfolding median_def using that
        by (simp add: a_def c_def even_iff_mod_2_eq_zero)
    qed
    assume const: "\<forall>x \<in> set xs. x = hd xs"
    define c where "c = hd xs"
    from const have rep: "xs = replicate n c"
      unfolding c_def n_def by (simp add: replicate_length_same)
    have "c \<in> set xs" using ne by (simp add: c_def)
    then have cint: "c \<in> \<int>" using i by simp
    have "\<bar>xs ! 0\<bar> \<le> (\<Sum>y\<leftarrow>xs. \<bar>y\<bar>)"
      using ne by (intro sum_list_abs_nth) simp
    moreover have "xs ! 0 = c" using ne by (simp add: c_def hd_conv_nth)
    ultimately have cb: "\<bar>c\<bar> < 2 ^ 53" using b by simp
    have "sum_list xs = real n * c"
      by (subst rep) (simp add: sum_list_replicate)
    then have "sum_list xs / real n = c" using len by simp
    with m have mc: "mean = Fin c"
      using cint cb by (simp add: to_double_Ints)
    have "map (\<lambda>value. Math_pow2 P (jsub value mean)) vs = map (\<lambda>x. Fin 0) xs"
      unfolding vs_def mc using const
      by (simp add: jsub_def to_double_zero Math_pow2_def c_def)
    then have "stdDev = Fin 0"
      unfolding stdDev_def using len
      by (simp add: foldl_jadd_zeros to_double_zero Math_sqrt_def)
    with mc show "mean = Fin (hd xs)" and "stdDev = Fin 0"
      by (simp_all add: c_def)
  qed
  from res gen_mean gen_median gen_stdDev odd ints show ?thesis
    unfolding vs_def n_def by blast
qed

lemma is_double_big: "is_double (2 ^ 1023)"
  unfolding is_double_def using to_double_exact [of "2 ^ 1023" 1 1023] by simp

text \<open>
  Claim C5 says that the record of a non-empty sequence of finite numbers holds the
  extrema, the arithmetic mean, the median of the ascending-sorted sequence, the
  population standard deviation and the count. The code computes them in double
  arithmetic, and the sum of two finite doubles can be infinite: for the sequence
  \<open>2^1023, 2^1023\<close> the mean, the median and the standard deviation are all \<open>Infinity\<close>.
\<close>

theorem calculateStatistics_overflow_counterexample:
  "is_double (2 ^ 1023) \<and>
   (case calculateStatistics sample_platform (map Fin [2 ^ 1023, 2 ^ 1023]) of
      Inl e \<Rightarrow> False
    | Inr r \<Rightarrow> map_of r ''mean'' = Some PosInf \<and> map_of r ''median'' = Some PosInf \<and>
        map_of r ''stdDev'' = Some PosInf \<and>
        \<not> statistics_as_specified [2 ^ 1023, 2 ^ 1023] r)"
proof -
  define b :: real where "b = 2 ^ 1023"
  have d: "is_double b" unfolding b_def by (rule is_double_big)
  have s0: "to_double b = Fin b"
    using d by (simp add: is_double_def)
  have "(2::real) ^ 1024 \<le> \<bar>2 * b\<bar>" unfolding b_def by simp
  moreover have "0 < 2 * b" unfolding b_def by simp
  ultimately have s1: "to_double (2 * b) = PosInf"
    using to_double_overflow [of "2 * b"] by simp
  have srt: "js_sort [Fin b, Fin b] = [Fin b, Fin b]"
    using js_sort_double [of "[b, b]"] d by simp
  have "calculateStatistics sample_platform [Fin b, Fin b] =
     Inr [(''min'', Fin b), (''max'', Fin b), (''mean'', PosInf), (''median'', PosInf),
          (''stdDev'', PosInf), (''count'', Fin 2)]"
    unfolding calculateStatistics_def Let_def srt
    by (simp add: s0 s1 jsub_def Math_pow2_def Math_sqrt_def Math_min_def Math_max_def
          sample_platform_def)
  then show ?thesis
    using d unfolding b_def by (simp add: statistics_as_specified_def)
qed

text \<open>
  Claim C5, as the code has it. The empty sequence gives the record without keys. A
  sequence longer than the engine's argument limit gives no record: \<open>Math.min\<close> throws.
  For a non-empty sequence \<open>xs\<close> of doubles within the limit the record holds, in this
  order, \<open>min\<close> and \<open>max\<close> (the extrema, exactly), \<open>mean\<close>, \<open>median\<close>, \<open>stdDev\<close> and
  \<open>count\<close> (the length). The mean is the sum, added up from the left in double
  arithmetic, divided by the count. The median is the central element of the
  ascending-sorted sequence for an odd count, and the rounded sum of the two central
  elements, halved, for an even count. The standard deviation is \<open>Math.sqrt\<close> of the sum of
  the \<open>Math.pow(x - mean, 2)\<close>, added up in double arithmetic, divided by the count.
  When the elements are integers whose magnitudes sum to less
  than \<open>2^53\<close>, the sum is exact, so the mean is the arithmetic mean rounded once to a
  double, and for an even count the median is exactly the average of the two central
  elements; when moreover all elements are equal, the mean is that element and the
  standard deviation is 0. So the standard deviation of 5, 5, 5 is 0, the median of
  1, 2, 3, 4 is 2.5 and the mean of 1, 2, 3 is 2.
\<close>

theorem calculateStatistics_spec:
  "calculateStatistics P [] = Inr []
   \<and> (xs \<noteq> [] \<and> length xs \<le> argument_limit P \<and> (\<forall>x \<in> set xs. is_double x) \<longrightarrow>
        (\<exists>mean median stdDev.
           calculateStatistics P (map Fin xs) =
             Inr [(''min'', Fin (Min (set xs))),
                  (''max'', Fin (Max (set xs))),
                  (''mean'', mean),
                  (''median'', median),
                  (''stdDev'', stdDev),
                  (''count'', Fin (real (length xs)))] \<and>
           mean = jdiv (foldl jadd (Fin 0) (map Fin xs)) (Fin (real (length xs))) \<and>
           median =
             (if even (length xs)
              then jdiv (jadd (Fin (sort xs ! (length xs div 2 - 1)))
                              (Fin (sort xs ! (length xs div 2)))) (Fin 2)
              else Fin (sort xs ! (length xs div 2))) \<and>
           stdDev =
             Math_sqrt P
               (jdiv (foldl jadd (Fin 0) (map (\<lambda>x. Math_pow2 P (jsub (Fin x) mean)) xs))
                  (Fin (real (length xs)))) \<and>
           ((\<forall>x \<in> set xs. x \<in> \<int>) \<and> (\<Sum>x\<leftarrow>xs. \<bar>x\<bar>) < 2 ^ 53 \<longrightarrow>
              mean = to_double (sum_list xs / real (length xs)) \<and>
              (even (length xs) \<longrightarrow>
                 median =
                   Fin ((sort xs ! (length xs div 2 - 1) + sort xs ! (length xs div 2)) / 2)) \<and>
              ((\<forall>x \<in> set xs. x = hd xs) \<longrightarrow> mean = Fin (hd xs) \<and> stdDev = Fin 0))))
   \<and> (argument_limit P < length values \<longrightarrow> calculateStatistics P values = Inl RangeError)
   \<and> (3 \<le> argument_limit P \<longrightarrow>
        calculateStatistics P (map Fin [5, 5, 5]) =
          Inr [(''min'', Fin 5), (''max'', Fin 5), (''mean'', Fin 5), (''median'', Fin 5),
               (''stdDev'', Fin 0), (''count'', Fin 3)])
   \<and> (4 \<le> argument_limit P \<longrightarrow>
        (\<exists>r. calculateStatistics P (map Fin [1, 2, 3, 4]) = Inr r \<and>
             map_of r ''median'' = Some (Fin 2.5)))
   \<and> (3 \<le> argument_limit P \<longrightarrow>
        (\<exists>r. calculateStatistics P (map Fin [1, 2, 3]) = Inr r \<and>
             map_of r ''mean'' = Some (Fin 2)))"
proof (intro conjI impI)
  show "calculateStatistics P [] = Inr []"
    by (rule calculateStatistics_empty)
next
  assume "xs \<noteq> [] \<and> length xs \<le> argument_limit P \<and> (\<forall>x \<in> set xs. is_double x)"
  then have "xs \<noteq> []" and "length xs \<le> argument_limit P" and "\<forall>x \<in> set xs. is_double x"
    by simp_all
  then show "\<exists>mean median stdDev.
           calculateStatistics P (map Fin xs) =
             Inr [(''min'', Fin (Min (set xs))),
                  (''max'', Fin (Max (set xs))),
                  (''mean'', mean),
                  (''median'', median),
                  (''stdDev'', stdDev),
                  (''count'', Fin (real (length xs)))] \<and>
           mean = jdiv (foldl jadd (Fin 0) (map Fin xs)) (Fin (real (length xs))) \<and>
           median =
             (if even (length xs)
              then jdiv (jadd (Fin (sort xs ! (length xs div 2 - 1)))
                              (Fin (sort xs ! (length xs div 2)))) (Fin 2)
              else Fin (sort xs ! (length xs div 2))) \<and>
           stdDev =
             Math_sqrt P
               (jdiv (foldl jadd (Fin 0) (map (\<lambda>x. Math_pow2 P (jsub (Fin x) mean)) xs))
                  (Fin (real (length xs)))) \<and>
           ((\<forall>x \<in> set xs. x \<in> \<int>) \<and> (\<Sum>x\<leftarrow>xs. \<bar>x\<bar>) < 2 ^ 53 \<longrightarrow>
              mean = to_double (sum_list xs / real (length xs)) \<and>
              (even (length xs) \<longrightarrow>
                 median =
                   Fin ((sort xs ! (length xs div 2 - 1) + sort xs ! (length xs div 2)) / 2)) \<and>
              ((\<forall>x \<in> set xs. x = hd xs) \<longrightarrow> mean = Fin (hd xs) \<and> stdDev = Fin 0))"
    by (rule calculateStatistics_doubles)
next
  assume "argument_limit P < length values"
  then show "calculateStatistics P values = Inl RangeError"
    by (rule calculateStatistics_RangeError)
next
  assume "3 \<le> argument_limit P"
  then show "calculateStatistics P (map Fin [5, 5, 5]) =
          Inr [(''min'', Fin 5), (''max'', Fin 5), (''mean'', Fin 5), (''median'', Fin 5),
               (''stdDev'', Fin 0), (''count'', Fin 3)]"
    using calculateStatistics_doubles [of "[5, 5, 5]" P]
    by (auto simp: is_double_numeral)
next
  assume "4 \<le> argument_limit P"
  then show "\<exists>r. calculateStatistics P (map Fin [1, 2, 3, 4]) = Inr r \<and>
             map_of r ''median'' = Some (Fin 2.5)"
    using calculateStatistics_doubles [of "[1, 2, 3, 4]" P]
    by (auto simp: is_double_numeral is_double_Ints)
next
  assume "3 \<le> argument_limit P"
  then show "\<exists>r. calculateStatistics P (map Fin [1, 2, 3]) = Inr r \<and>
             map_of r ''mean'' = Some (Fin 2)"
    using calculateStatistics_doubles [of "[1, 2, 3]" P]
    by (auto simp: is_double_numeral is_double_Ints to_double_numeral)
qed

theorem calculateStatistics_spec_witness:
  "3 \<le> argument_limit sample_platform \<and>
   calculateStatistics sample_platform (map Fin [5, 5, 5]) =
     Inr [(''min'', Fin 5), (''max'', Fin 5), (''mean'', Fin 5), (''median'', Fin 5),
          (''stdDev'', Fin 0), (''count'', Fin 3)] \<and>
   (\<exists>stdDev.
      calculateStatistics sample_platform (map Fin [3, 1, 2, 6]) =
        Inr [(''min'', Fin 1), (''max'', Fin 6), (''mean'', Fin 3), (''median'', Fin 2.5),
             (''stdDev'', stdDev), (''count'', Fin 4)]) \<and>
   calculateStatistics sample_platform (replicate 125001 (Fin 1)) = Inl RangeError"
  using calculateStatistics_spec [of sample_platform "[3, 1, 2, 6]" "replicate 125001 (Fin 1)"]
  by (auto simp: sample_platform_def is_double_numeral is_double_Ints to_double_numeral)

section \<open>Type inference on a column\<close>

lemmas str_eval = trim_def trimStart_def trimEnd_def isWhiteSpace_def isDigit_def

lemmas num_eval = StringToNumber_def NonDecimalIntegerLiteral_def scan_StrDecimalLiteral_def
  scan_unsigned_def scan_exponent_def decimal_value_def digits_val_def digit_val_def
  to_double_zero to_double_one to_double_numeral parseFloat_str_def isDigitOf_def

lemma numeric_zero_one:
  "\<not> isNaN (parseFloat P (Str ''0'')) \<and> isFinite P (Str ''0'')"
  "\<not> isNaN (parseFloat P (Str ''1'')) \<and> isFinite P (Str ''1'')"
  "\<not> isNaN (parseFloat P (Num (Fin 0))) \<and> isFinite P (Num (Fin 0))"
  "\<not> isNaN (parseFloat P (Num (Fin 1))) \<and> isFinite P (Num (Fin 1))"
  by (simp_all add: parseFloat_def isFinite_def ToNumber_def is_finite_def isNaN_def
        str_eval num_eval)


lemma detectDataType_zero_one:
  assumes "vs \<noteq> []" and "set vs \<subseteq> {Str ''0'', Str ''1'', Num (Fin 0), Num (Fin 1)}"
  shows "detectDataType P vs = ''number''"
proof -
  have keep: "filter (\<lambda>v. v \<noteq> Undefined \<and> v \<noteq> Null \<and> v \<noteq> Str []) vs = vs"
    using assms(2) by (auto simp: filter_id_conv)
  have "list_all (\<lambda>v. \<not> isNaN (parseFloat P v) \<and> isFinite P v) vs"
    unfolding list_all_iff using assms(2) numeric_zero_one [of P] by blast
  with assms(1) keep show ?thesis
    by (simp add: detectDataType_def Let_def)
qed



section \<open>The date pattern\<close>

lemma date_prefix_test: "regex_test datePattern ''2024-01-15xyz''"
  by code_simp

lemma date_suffix_test: "regex_test datePattern ''x1/2/2024''"
  by code_simp

lemma date_prefix_not_number:
  "parseFloat_str ''2024-01-15xyz'' = Fin 2024" "StringToNumber ''2024-01-15xyz'' = NaN"
  by (simp_all add: str_eval num_eval)

lemma date_suffix_not_number: "parseFloat_str ''x1/2/2024'' = NaN"
  by (simp add: str_eval num_eval)

text \<open>
  Claim C7 says that a value is date-like only when the whole string matches one of the
  two date shapes, so that a string with extra characters before or after a date does
  not qualify. In the pattern of the source the alternation binds weaker than the
  anchors: \<open>^\<close> anchors only the year-first shape and \<open>$\<close> only the year-last shape. A
  string that starts with a year-first date, or ends with a year-last date, passes the
  test whatever follows or precedes, and a column of such strings is typed \<open>date\<close>.
\<close>

theorem detectDataType_date_not_anchored:
  "detectDataType P [Str ''2024-01-15xyz''] = ''date'' \<and>
   detectDataType P [Str ''x1/2/2024''] = ''date''"
  by (simp add: date_prefix_test date_suffix_test date_prefix_not_number
        date_suffix_not_number detectDataType_def Let_def parseFloat_def isFinite_def
        ToNumber_def is_finite_def isNaN_def)

section \<open>The CSV analyzer on well-formed input\<close>

lemma join_with_snoc_empty:
  "ls \<noteq> [] \<Longrightarrow> join_with sep (ls @ [[]]) = join_with sep ls @ sep"
proof (induction ls)
  case Nil
  then show ?case by simp
next
  case (Cons x ys)
  then show ?case by (cases ys) auto
qed

lemma csvStatistics_throws:
  "csvStatistics P rows dt hs st = Inl e \<Longrightarrow> e = RangeError \<and> argument_limit P < length rows"
proof (induction hs arbitrary: st)
  case Nil
  then show ?case by simp
next
  case (Cons hi hs)
  obtain header index where hi: "hi = (header, index)" by (cases hi)
  show ?case
  proof (cases "map_of dt header = Some ''number''")
    case True
    define vs where
      "vs = filter (\<lambda>val. \<not> isNaN val) (map (\<lambda>line. parseFloat P (cell line index)) rows)"
    show ?thesis
    proof (cases "calculateStatistics P vs")
      case (Inl e')
      with Cons.prems True hi have "e = e'" by (simp add: vs_def)
      moreover from calculateStatistics_throws [OF Inl]
      have "e' = RangeError" "argument_limit P < length vs" by simp_all
      moreover have "length vs \<le> length rows"
        unfolding vs_def by (rule order_trans [OF length_filter_le]) simp
      ultimately show ?thesis by simp
    next
      case (Inr stats)
      with Cons.prems True hi
      have "csvStatistics P rows dt hs (AList.update header (StatsRecord stats) st) = Inl e"
        by (simp add: vs_def)
      then show ?thesis by (rule Cons.IH)
    qed
  next
    case False
    with Cons.prems hi have "csvStatistics P rows dt hs st = Inl e" by simp
    then show ?thesis by (rule Cons.IH)
  qed
qed

lemma analyzeCSV_counts:
  assumes "filter (\<lambda>line. trim line \<noteq> []) (split_char CHR 0x0A content) = h # ds"
  shows "case analyzeCSV P content of
           Inr p \<Rightarrow> p_rowCount p = Some (int (length ds)) \<and>
             p_columnCount p = Some (length (split_char CHR '','' h))
         | Inl e \<Rightarrow> e = RangeError \<and> argument_limit P < length ds"
proof -
  define hs where "hs = map trim (split_char CHR '','' h)"
  define dt where "dt =
    foldl (\<lambda>dataTypes' (header, index).
             AList.update header (detectDataType P (map (\<lambda>line. cell line index) ds)) dataTypes')
      [] (zip hs [0..<length hs])"
  show ?thesis
  proof (cases "csvStatistics P ds dt (zip hs [0..<length hs]) []")
    case (Inl e)
    then have "analyzeCSV P content = Inl e"
      unfolding analyzeCSV_def Let_def assms hs_def dt_def by simp
    with csvStatistics_throws [OF Inl] show ?thesis by simp
  next
    case (Inr st)
    then show ?thesis
      unfolding analyzeCSV_def Let_def assms hs_def dt_def by simp
  qed
qed

lemma parseFloat_one: "parseFloat P (Str ''1'') = Fin 1"
  by (simp add: parseFloat_def str_eval num_eval)

lemma analyzeCSV_ones_RangeError:
  assumes "argument_limit P < N"
  shows "analyzeCSV P (join_with [CHR 0x0A] (''a'' # replicate N ''1'')) = Inl RangeError"
proof -
  have nl: "\<forall>l \<in> set (''a'' # replicate N ''1''). CHR 0x0A \<notin> set l" by auto
  have lines: "split_char CHR 0x0A (join_with [CHR 0x0A] (''a'' # replicate N ''1'')) =
      ''a'' # replicate N ''1''"
    using split_char_join [of "''a'' # replicate N ''1''" "CHR 0x0A"] nl by simp
  have f: "filter (\<lambda>line. trim line \<noteq> []) (''a'' # replicate N ''1'') = ''a'' # replicate N ''1''"
    by (simp add: filter_id_conv str_eval)
  have cell1: "cell ''1'' 0 = Str ''1''" and a: "trim ''a'' = ''a''"
    by (simp_all add: cell_def str_eval)
  have dt: "detectDataType P (replicate N (Str ''1'')) = ''number''"
    using assms by (intro detectDataType_zero_one) auto
  have "calculateStatistics P (replicate N (Fin 1)) = Inl RangeError"
    using assms by (simp add: calculateStatistics_RangeError)
  then show ?thesis
    unfolding analyzeCSV_def Let_def lines f
    by (simp add: cell1 a dt parseFloat_one isNaN_def)
qed

text \<open>
  Claim C8 says that for a CSV text made of a header line \<open>h\<close> followed by the data lines
  \<open>ds\<close>, none of them blank after trimming, \<open>rowCount\<close> is the number of data lines and
  \<open>columnCount\<close> is the number of comma-separated tokens of the header line. Whenever
  the analyzer returns a record, it is so (the lines are joined by newlines, with or
  without a newline after the last one). But the analyzer does not return for every such
  text: the statistics of a numeric column pass all its values as arguments to
  \<open>Math.min\<close>, and a column longer than the engine's argument limit throws a
  \<open>RangeError\<close> out of \<open>analyzeCSV\<close>. No other error is possible, and none at all up to
  the limit. The header \<open>a\<close> followed by \<open>N\<close> lines \<open>1\<close> is such a text for every \<open>N\<close> above
  the limit.
\<close>

theorem analyzeCSV_rowCount_columnCount:
  "((\<forall>l \<in> set (h # ds). CHR 0x0A \<notin> set l \<and> trim l \<noteq> []) \<and>
    (content = join_with [CHR 0x0A] (h # ds) \<or>
     content = join_with [CHR 0x0A] (h # ds) @ [CHR 0x0A]) \<longrightarrow>
      (case analyzeCSV P content of
         Inr p \<Rightarrow> p_rowCount p = Some (int (length ds)) \<and>
           p_columnCount p = Some (length (split_char CHR '','' h))
       | Inl e \<Rightarrow> e = RangeError \<and> argument_limit P < length ds))
   \<and> (argument_limit P < N \<longrightarrow>
        (\<forall>l \<in> set (''a'' # replicate N ''1''). CHR 0x0A \<notin> set l \<and> trim l \<noteq> []) \<and>
        analyzeCSV P (join_with [CHR 0x0A] (''a'' # replicate N ''1'')) = Inl RangeError)"
proof (intro conjI impI)
  assume a: "(\<forall>l \<in> set (h # ds). CHR 0x0A \<notin> set l \<and> trim l \<noteq> []) \<and>
    (content = join_with [CHR 0x0A] (h # ds) \<or>
     content = join_with [CHR 0x0A] (h # ds) @ [CHR 0x0A])"
  then have nl: "\<forall>l \<in> set (h # ds). CHR 0x0A \<notin> set l"
    and nb: "\<forall>l \<in> set (h # ds). trim l \<noteq> []"
    by auto
  have s1: "split_char CHR 0x0A (join_with [CHR 0x0A] (h # ds)) = h # ds"
    using split_char_join [of "h # ds" "CHR 0x0A"] nl by simp
  have "filter (\<lambda>line. trim line \<noteq> []) (split_char CHR 0x0A content) = h # ds"
  proof -
    have f: "filter (\<lambda>line. trim line \<noteq> []) (h # ds) = h # ds"
      using nb by (simp add: filter_id_conv)
    from a have "content = join_with [CHR 0x0A] (h # ds) \<or>
        content = join_with [CHR 0x0A] (h # ds) @ [CHR 0x0A]"
      by simp
    then show ?thesis
    proof
      assume "content = join_with [CHR 0x0A] (h # ds)"
      with s1 f show ?thesis by simp
    next
      assume c: "content = join_with [CHR 0x0A] (h # ds) @ [CHR 0x0A]"
      have "content = join_with [CHR 0x0A] ((h # ds) @ [[]])"
        using c join_with_snoc_empty [of "h # ds" "[CHR 0x0A]"] by simp
      moreover have "\<forall>l \<in> set ((h # ds) @ [[]]). CHR 0x0A \<notin> set l"
        using nl by auto
      ultimately have "split_char CHR 0x0A content = (h # ds) @ [[]]"
        using split_char_join [of "(h # ds) @ [[]]" "CHR 0x0A"] by simp
      moreover have "trim [] = []"
        by (simp add: trim_def trimStart_def trimEnd_def)
      then have "filter (\<lambda>line. trim line \<noteq> []) ((h # ds) @ [[]]) = h # ds"
        unfolding filter_append f by simp
      ultimately show ?thesis by simp
    qed
  qed
  then show "case analyzeCSV P content of
         Inr p \<Rightarrow> p_rowCount p = Some (int (length ds)) \<and>
           p_columnCount p = Some (length (split_char CHR '','' h))
       | Inl e \<Rightarrow> e = RangeError \<and> argument_limit P < length ds"
    by (rule analyzeCSV_counts)
next
  show "\<forall>l \<in> set (''a'' # replicate N ''1''). CHR 0x0A \<notin> set l \<and> trim l \<noteq> []"
    by (simp add: str_eval)
next
  assume "argument_limit P < N"
  then show "analyzeCSV P (join_with [CHR 0x0A] (''a'' # replicate N ''1'')) = Inl RangeError"
    by (rule analyzeCSV_ones_RangeError)
qed

theorem analyzeCSV_rowCount_columnCount_witness:
  "list_all (\<lambda>l. CHR 0x0A \<notin> set l \<and> trim l \<noteq> []) [''a,b,c'', ''1,2,3'', ''4,5''] \<and>
   (case analyzeCSV sample_platform (join_with [CHR 0x0A] [''a,b,c'', ''1,2,3'', ''4,5'']) of
      Inr p \<Rightarrow> p_rowCount p = Some 2 \<and> p_columnCount p = Some 3
    | Inl e \<Rightarrow> False) \<and>
   argument_limit sample_platform < 200000 \<and>
   analyzeCSV sample_platform (join_with [CHR 0x0A] (''a'' # replicate 200000 ''1'')) =
     Inl RangeError"
  using analyzeCSV_rowCount_columnCount
      [of "''a,b,c''" "[''1,2,3'', ''4,5'']"
          "join_with [CHR 0x0A] [''a,b,c'', ''1,2,3'', ''4,5'']" sample_platform 200000]
  by (simp add: trim_def trimStart_def trimEnd_def isWhiteSpace_def sample_platform_def
        split: sum.splits)

section \<open>The shape of the generated results\<close>

text \<open>
  Claim C10: \<open>generateResults\<close> returns the empty list when \<open>fileAnalysis\<close> is
  \<open>null\<close>; for every analysis record it returns a non-empty list whose first element
  is the result of type \<open>text\<close>, whatever the algorithm and the output configuration.
\<close>

theorem generateResults_text_first:
  "generateResults H None algorithmId outputConfig = [] \<and>
   generateResults H (Some fa) algorithmId outputConfig \<noteq> [] \<and>
   r_type (hd (generateResults H (Some fa) algorithmId outputConfig)) = ''text''"
  by (simp add: generateResults_def Let_def)

section \<open>A JSON file that does not parse\<close>

lemmas char_eval = char_of_def bit_0

lemma show_nat_digit: "show_nat 0 = ''0''" "show_nat 1 = ''1''" "show_nat (Suc 0) = ''1''"
  by (simp_all add: show_nat.simps char_eval)

lemma analyzeJSON_empty_object:
  "analyzeJSON P (Obj []) =
     Inr \<lparr> p_summary = Some ''JSON file with 1 records and 0 fields. Contains 0 numeric fields suitable for analysis.'',
           p_rowCount = Some 1,
           p_columnCount = Some 0,
           p_headers = Some [],
           p_dataTypes = Some [],
           p_sampleData = Some [Obj []],
           p_statistics = Some [],
           p_recommendations =
             Some [''K-Nearest Neighbors algorithm works well with smaller datasets''] \<rparr>"
  by (simp add: analyzeJSON_def truthy_def typeof_object_def Object_keys_def Let_def
        numericCount_def show_nat_digit generateRecommendations_def Object_values_def)

lemma json_name:
  "getFileType \<lparr>name = ''data.json'', size_bytes = 4, text_content = Some ''{bad''\<rparr> = ''json''"
  by (simp add: getFileType_def toLowerCase_def lowerChar_def char_eval)

text \<open>
  Claim C1 says that for a \<open>json\<close> file whose text does not parse the failure is
  swallowed, the analysis proceeds as if the content were \<open>{}\<close>, no error is thrown, and
  the summary is \<open>Empty or invalid JSON file.\<close> with the two fixed recommendations. The
  first three hold. The last does not: \<open>{}\<close> is a truthy value of type \<open>object\<close>, so
  \<open>analyzeJSON\<close> passes over its guard for empty or invalid content and analyses \<open>{}\<close>
  as a single object without fields. The result is a complete report of one record and
  no field, with the recommendation for small datasets.
\<close>

theorem analyzeFile_malformed_json:
  assumes "getFileType file = ''json''"
    and "text_content file = Some content"
    and "JSON_parse P content = None"
  shows "analyzeFile P file =
     Inr \<lparr> summary = ''JSON file with 1 records and 0 fields. Contains 0 numeric fields suitable for analysis.'',
           rowCount = Some 1,
           columnCount = Some 0,
           headers = Some [],
           dataTypes = Some [],
           sampleData = Some [Obj []],
           statistics = Some [],
           fileType = ''json'',
           fileSize = formatFileSize P (size_bytes file),
           recommendations =
             Some [''K-Nearest Neighbors algorithm works well with smaller datasets''] \<rparr>"
  using assms
  by (simp add: analyzeFile_def readFileContent_def analyzeJSON_empty_object spread_def
        or_else_def Let_def)

theorem analyzeFile_malformed_json_witness:
  "getFileType \<lparr>name = ''data.json'', size_bytes = 4, text_content = Some ''{bad''\<rparr> = ''json'' \<and>
   JSON_parse sample_platform ''{bad'' = None \<and>
   (case analyzeFile sample_platform
           \<lparr>name = ''data.json'', size_bytes = 4, text_content = Some ''{bad''\<rparr> of
      Inl e \<Rightarrow> False
    | Inr r \<Rightarrow> summary r \<noteq> ''Empty or invalid JSON file.'' \<and> rowCount r = Some 1 \<and>
        headers r = Some [])"
  using analyzeFile_malformed_json
    [of "\<lparr>name = ''data.json'', size_bytes = 4, text_content = Some ''{bad''\<rparr>" "''{bad''"
        sample_platform]
  by (simp add: json_name sample_platform_def)

section \<open>The keys of the statistics\<close>


lemma keys_update: "fst ` set (AList.update k v al) = insert k (fst ` set al)"
  by (induction al) auto

lemma csvStatistics_keys:
  "csvStatistics P rows dt xs acc = Inr st \<Longrightarrow>
     fst ` set st \<subseteq> fst ` set acc \<union> {h \<in> fst ` set xs. map_of dt h = Some ''number''}"
proof (induction xs arbitrary: acc)
  case Nil
  then show ?case by auto
next
  case (Cons x xs)
  obtain h i where x: "x = (h, i)" by (cases x)
  show ?case
  proof (cases "map_of dt h = Some ''number''")
    case True
    with Cons.prems x obtain stats where
      "csvStatistics P rows dt xs (AList.update h (StatsRecord stats) acc) = Inr st"
      by (auto split: sum.splits)
    from Cons.IH [OF this] True x show ?thesis
      by (auto simp: keys_update)
  next
    case False
    with Cons.prems x have "csvStatistics P rows dt xs acc = Inr st" by simp
    from Cons.IH [OF this] show ?thesis by auto
  qed
qed

lemma statisticsAll_keys:
  "statisticsAll P items dt hs acc = Inr st \<Longrightarrow>
     fst ` set st \<subseteq> fst ` set acc \<union> {h \<in> set hs. map_of dt h = Some ''number''}"
proof (induction hs arbitrary: acc)
  case Nil
  then show ?case by auto
next
  case (Cons h hs)
  show ?case
  proof (cases "map_of dt h = Some ''number''")
    case True
    with Cons.prems obtain stats where
      "statisticsAll P items dt hs (AList.update h (StatsRecord stats) acc) = Inr st"
      by (auto split: sum.splits)
    from Cons.IH [OF this] True show ?thesis
      by (auto simp: keys_update)
  next
    case False
    with Cons.prems have "statisticsAll P items dt hs acc = Inr st" by simp
    from Cons.IH [OF this] show ?thesis by auto
  qed
qed

lemma zip_upt_fst: "fst ` set (zip hs [0..<length hs]) = set hs"
proof -
  have "map fst (zip hs [0..<length hs]) = hs" by simp
  then have "set (map fst (zip hs [0..<length hs])) = set hs" by simp
  then show ?thesis by (simp only: set_map)
qed

lemma analyzeCSV_statistics:
  assumes "analyzeCSV P s = Inr p"
  shows "(p_statistics p = None \<and> p_headers p = None) \<or>
   (\<exists>st hs dt. p_statistics p = Some st \<and> p_headers p = Some hs \<and>
      p_dataTypes p = Some dt \<and>
      fst ` set st \<subseteq> {h \<in> set hs. map_of dt h = Some ''number''})"
proof (cases "filter (\<lambda>line. trim line \<noteq> []) (split_char CHR 0x0A s) = []")
  case True
  with assms show ?thesis by (auto simp: analyzeCSV_def)
next
  case False
  define lines where "lines = filter (\<lambda>line. trim line \<noteq> []) (split_char CHR 0x0A s)"
  define hs where "hs = map trim (split_char CHR '','' (lines ! 0))"
  define dt where "dt =
    foldl (\<lambda>dataTypes' (header, index).
             AList.update header
               (detectDataType P (map (\<lambda>line. cell line index) (drop 1 lines))) dataTypes')
      [] (zip hs [0..<length hs])"
  from assms False obtain st where
    s: "csvStatistics P (drop 1 lines) dt (zip hs [0..<length hs]) [] = Inr st"
    and p: "p_statistics p = Some st" "p_headers p = Some hs" "p_dataTypes p = Some dt"
    unfolding analyzeCSV_def Let_def dt_def hs_def lines_def
    by (auto split: sum.splits)
  from csvStatistics_keys [OF s] have "fst ` set st \<subseteq> {h \<in> set hs. map_of dt h = Some ''number''}"
    unfolding zip_upt_fst by simp
  with p show ?thesis by blast
qed

lemma analyzeJSON_statistics:
  assumes "analyzeJSON P c = Inr p"
  shows "(p_statistics p = None \<and> p_headers p = None) \<or>
   (\<exists>st hs dt. p_statistics p = Some st \<and> p_headers p = Some hs \<and>
      p_dataTypes p = Some dt \<and>
      fst ` set st \<subseteq> {h \<in> set hs. map_of dt h = Some ''number''})"
proof (cases "\<not> truthy c \<or> \<not> typeof_object c")
  case True
  with assms show ?thesis by (auto simp: analyzeJSON_def)
next
  case False
  with assms obtain hs dt st where
    s: "statisticsAll P (case c of Arr xs \<Rightarrow> xs | _ \<Rightarrow> [c]) dt hs [] = Inr st"
    and p: "p_statistics p = Some st" "p_headers p = Some hs" "p_dataTypes p = Some dt"
    by (auto simp: analyzeJSON_def Let_def split: sum.splits)
  from statisticsAll_keys [OF s] p show ?thesis by auto
qed

lemma analyzeTXT_statistics:
  assumes "analyzeTXT s = Inr p"
  shows "(\<exists>st. p_statistics p = Some st \<and>
            map fst st = [''wordCount'', ''charCount'', ''avgWordsPerLine'']) \<and>
         p_headers p = None \<and> p_dataTypes p = None"
  using assms by (auto simp: analyzeTXT_def Let_def split: sum.splits if_splits list.splits)

lemma spread_statistics_keys:
  assumes "(p_statistics p = None \<and> p_headers p = None) \<or>
     (\<exists>st hs dt. p_statistics p = Some st \<and> p_headers p = Some hs \<and>
        p_dataTypes p = Some dt \<and>
        fst ` set st \<subseteq> {h \<in> set hs. map_of dt h = Some ''number''})"
    and "statistics b = None" and "headers b = None"
  shows "statistics_keys_numeric (spread b p) \<and>
         (statistics (spread b p) = None \<longleftrightarrow> headers (spread b p) = None)"
  using assms(1)
proof
  assume "p_statistics p = None \<and> p_headers p = None"
  with assms(2,3) show ?thesis
    by (simp add: statistics_keys_numeric_def spread_def or_else_def)
next
  assume "\<exists>st hs dt. p_statistics p = Some st \<and> p_headers p = Some hs \<and>
        p_dataTypes p = Some dt \<and>
        fst ` set st \<subseteq> {h \<in> set hs. map_of dt h = Some ''number''}"
  then obtain st hs dt where p: "p_statistics p = Some st" "p_headers p = Some hs"
      "p_dataTypes p = Some dt"
    and sub: "fst ` set st \<subseteq> {h \<in> set hs. map_of dt h = Some ''number''}"
    by blast
  from sub have "\<forall>k \<in> set (map fst st). k \<in> set hs \<and> map_of dt k = Some ''number''"
    by auto
  with p show ?thesis
    by (simp add: statistics_keys_numeric_def spread_def or_else_def list_all_iff)
qed

text \<open>
  Claim C2 says that for every result of \<open>analyzeFile\<close>, text files included, the keys
  of \<open>statistics\<close> are among the headers typed \<open>number\<close>, and that \<open>statistics\<close> is
  absent when there is no numeric header. A text file is the exception: its
  \<open>statistics\<close> holds the three counters \<open>wordCount\<close>, \<open>charCount\<close> and
  \<open>avgWordsPerLine\<close>, and the result has neither headers nor \<open>dataTypes\<close>. For every
  other file type the keys of \<open>statistics\<close> are headers typed \<open>number\<close>, and
  \<open>statistics\<close> is present exactly when \<open>headers\<close> is (as the empty dictionary when no
  header is numeric).
\<close>

theorem analyzeFile_statistics_keys:
  assumes "analyzeFile P file = Inr r"
  shows "(getFileType file \<noteq> ''txt'' \<longrightarrow>
            statistics_keys_numeric r \<and> (statistics r = None \<longleftrightarrow> headers r = None))
       \<and> (getFileType file = ''txt'' \<longrightarrow>
            (\<exists>st. statistics r = Some st \<and>
               map fst st = [''wordCount'', ''charCount'', ''avgWordsPerLine'']) \<and>
            headers r = None \<and> dataTypes r = None)"
proof -
  define b where "b =
     \<lparr> summary = [], rowCount = None, columnCount = None, headers = None,
       dataTypes = None, sampleData = None, statistics = None,
       fileType = getFileType file, fileSize = formatFileSize P (size_bytes file),
       recommendations = Some [] \<rparr>"
  have b: "statistics b = None" "headers b = None" "dataTypes b = None"
    by (simp_all add: b_def)
  from assms obtain content where
    rd: "readFileContent P file (getFileType file) = Inr content"
    by (auto simp: analyzeFile_def Let_def split: sum.splits)
  consider (is_csv) "getFileType file = ''csv''" | (is_json) "getFileType file = ''json''"
    | (is_txt) "getFileType file = ''txt''"
    | (other) "getFileType file \<noteq> ''csv''" "getFileType file \<noteq> ''json''"
        "getFileType file \<noteq> ''txt''"
    by blast
  then show ?thesis
  proof cases
    case is_csv
    with assms rd obtain s p where "analyzeCSV P s = Inr p" "r = spread b p"
      by (auto simp: analyzeFile_def Let_def b_def split: sum.splits jsval.splits)
    with spread_statistics_keys [OF analyzeCSV_statistics b(1,2)] is_csv show ?thesis
      by simp
  next
    case is_json
    with assms rd obtain p where "analyzeJSON P content = Inr p" "r = spread b p"
      by (auto simp: analyzeFile_def Let_def b_def split: sum.splits)
    with spread_statistics_keys [OF analyzeJSON_statistics b(1,2)] is_json show ?thesis
      by simp
  next
    case is_txt
    with assms rd obtain s p where "analyzeTXT s = Inr p" "r = spread b p"
      by (auto simp: analyzeFile_def Let_def b_def split: sum.splits jsval.splits)
    with analyzeTXT_statistics [of s p] b is_txt show ?thesis
      by (auto simp: spread_def or_else_def)
  next
    case other
    with assms rd show ?thesis
      by (auto simp: analyzeFile_def Let_def statistics_keys_numeric_def split: if_splits)
  qed
qed


lemma txt_name:
  "getFileType \<lparr>name = ''notes.txt'', size_bytes = 11, text_content = Some ''hello world''\<rparr>
     = ''txt''"
  by (simp add: getFileType_def toLowerCase_def lowerChar_def char_eval)

lemma txt_example: "\<exists>p. analyzeTXT ''hello world'' = Inr p"
  by (simp add: analyzeTXT_def Let_def str_eval tabCount_def)


lemma txt_not_numeric:
  assumes "p_statistics p = Some st"
    and "map fst st = [''wordCount'', ''charCount'', ''avgWordsPerLine'']"
    and "p_headers p = None" and "headers b = None"
  shows "\<not> statistics_keys_numeric (spread b p)"
proof -
  have "headers (spread b p) = None" "statistics (spread b p) = Some st"
    using assms by (simp_all add: spread_def or_else_def)
  then show ?thesis
    using assms(2) by (simp add: statistics_keys_numeric_def)
qed

lemma txt_file_result:
  assumes "analyzeTXT ''hello world'' = Inr p"
  shows "analyzeFile sample_platform
          \<lparr>name = ''notes.txt'', size_bytes = 11, text_content = Some ''hello world''\<rparr>
         = Inr (spread \<lparr> summary = [], rowCount = None, columnCount = None, headers = None,
                     dataTypes = None, sampleData = None, statistics = None,
                     fileType = ''txt'', fileSize = formatFileSize sample_platform 11,
                     recommendations = Some [] \<rparr> p)"
  unfolding analyzeFile_def readFileContent_def txt_name Let_def
  by (simp add: assms)

theorem analyzeFile_txt_statistics_counterexample:
  "case analyzeFile sample_platform
          \<lparr>name = ''notes.txt'', size_bytes = 11, text_content = Some ''hello world''\<rparr> of
     Inl e \<Rightarrow> False
   | Inr r \<Rightarrow> \<not> statistics_keys_numeric r"
proof -
  from txt_example obtain p where p: "analyzeTXT ''hello world'' = Inr p" ..
  have "\<exists>st. p_statistics p = Some st \<and>
            map fst st = [''wordCount'', ''charCount'', ''avgWordsPerLine'']"
    and h: "p_headers p = None"
    using analyzeTXT_statistics [OF p] by simp_all
  then obtain st where st: "p_statistics p = Some st"
    "map fst st = [''wordCount'', ''charCount'', ''avgWordsPerLine'']"
    by (elim exE conjE)
  have "\<not> statistics_keys_numeric
          (spread \<lparr> summary = [], rowCount = None, columnCount = None, headers = None,
                     dataTypes = None, sampleData = None, statistics = None,
                     fileType = ''txt'', fileSize = formatFileSize sample_platform 11,
                     recommendations = Some [] \<rparr> p)"
    by (rule txt_not_numeric [OF st h]) simp
  then show ?thesis
    unfolding txt_file_result [OF p] by simp
qed

lemma csv_name:
  "getFileType \<lparr>name = ''t.csv'', size_bytes = 3,
      text_content = Some [CHR ''a'', CHR 0x0A, CHR ''1'']\<rparr> = ''csv''"
  by (simp add: getFileType_def toLowerCase_def lowerChar_def char_eval)

lemma csv_example_lines:
  "filter (\<lambda>line. trim line \<noteq> []) (split_char CHR 0x0A [CHR ''a'', CHR 0x0A, CHR ''1''])
     = [''a'', ''1'']"
  by (simp add: str_eval)

lemma analyzeCSV_headers:
  assumes "filter (\<lambda>line. trim line \<noteq> []) (split_char CHR 0x0A content) = h # ds"
    and "analyzeCSV P content = Inr p"
  shows "p_headers p = Some (map trim (split_char CHR '','' h))"
  using assms by (auto simp: analyzeCSV_def Let_def split: sum.splits)

lemma csv_example:
  "\<exists>p. analyzeCSV sample_platform [CHR ''a'', CHR 0x0A, CHR ''1''] = Inr p \<and>
       p_headers p = Some [''a'']"
proof (cases "analyzeCSV sample_platform [CHR ''a'', CHR 0x0A, CHR ''1'']")
  case (Inl e)
  with analyzeCSV_counts [OF csv_example_lines, of sample_platform]
  show ?thesis by (simp add: sample_platform_def)
next
  case (Inr p)
  with analyzeCSV_headers [OF csv_example_lines Inr] show ?thesis
    by (simp add: str_eval)
qed

lemma csv_file_result:
  assumes "analyzeCSV sample_platform [CHR ''a'', CHR 0x0A, CHR ''1''] = Inr p"
  shows "analyzeFile sample_platform
          \<lparr>name = ''t.csv'', size_bytes = 3,
             text_content = Some [CHR ''a'', CHR 0x0A, CHR ''1'']\<rparr>
   = Inr (spread \<lparr> summary = [], rowCount = None, columnCount = None, headers = None,
                     dataTypes = None, sampleData = None, statistics = None,
                     fileType = ''csv'', fileSize = formatFileSize sample_platform 3,
                     recommendations = Some [] \<rparr> p)"
  unfolding analyzeFile_def readFileContent_def csv_name Let_def
  by (simp add: assms)

theorem analyzeFile_statistics_keys_witness:
  "case analyzeFile sample_platform
          \<lparr>name = ''t.csv'', size_bytes = 3,
             text_content = Some [CHR ''a'', CHR 0x0A, CHR ''1'']\<rparr> of
     Inl e \<Rightarrow> False
   | Inr r \<Rightarrow> statistics_keys_numeric r \<and> headers r = Some [''a''] \<and> statistics r \<noteq> None"
proof -
  from csv_example obtain p where
    p: "analyzeCSV sample_platform [CHR ''a'', CHR 0x0A, CHR ''1''] = Inr p"
    and hp: "p_headers p = Some [''a'']"
    by (elim exE conjE)
  define r where "r =
     spread \<lparr> summary = [], rowCount = None, columnCount = None, headers = None,
                dataTypes = None, sampleData = None, statistics = None,
                fileType = ''csv'', fileSize = formatFileSize sample_platform 3,
                recommendations = Some [] \<rparr> p"
  have res: "analyzeFile sample_platform
          \<lparr>name = ''t.csv'', size_bytes = 3,
             text_content = Some [CHR ''a'', CHR 0x0A, CHR ''1'']\<rparr> = Inr r"
    unfolding r_def by (rule csv_file_result [OF p])
  have h: "headers r = Some [''a'']"
    unfolding r_def by (simp add: spread_def or_else_def hp)
  have "statistics_keys_numeric r \<and> (statistics r = None \<longleftrightarrow> headers r = None)"
    using analyzeFile_statistics_keys [OF res] by (simp add: csv_name)
  with h show ?thesis
    unfolding res by simp
qed

end
